theory Spec2Isabelle
  imports Main "HOL-Library.Multiset"
begin

section \<open>Data model (src/types.ts)\<close>

text \<open>
  JavaScript numbers that carry unit counts and money amounts are modelled as \<open>int\<close>:
  the back end only stores integer quantities (\<open>z.coerce.number().int()\<close>), and amounts are
  treated as exact. An ISO date string such as \<open>2025-06-01\<close> is modelled by the number of
  the day it denotes (days since 1970-01-01), so only well-formed dates are represented.
  An optional field (\<open>gtin?: string\<close>) is an \<open>option\<close>.
\<close>

record Batch =
  batch_id :: string
  batchNumber :: string
  expiryDate :: int
  quantity :: int
  costPrice :: int

record Product =
  product_id :: string
  sku :: string
  gtin :: "string option"
  nameEn :: string
  nameMm :: string
  genericName :: "string option"
  category :: string
  description :: "string option"
  price :: int
  image :: string
  stockLevel :: int
  unit :: string
  minStockLevel :: int
  batches :: "Batch list"
  requiresPrescription :: bool
  branchId :: string
  location :: "string option"

text \<open>The product store of src/store.ts: the master list and the branch-filtered view.\<close>

record ProductState =
  allProducts :: "Product list"
  products :: "Product list"

section \<open>Array helpers\<close>

text \<open>\<open>Array.prototype.findIndex\<close>: the first index whose element satisfies the predicate;
  JavaScript's \<open>-1\<close> is \<open>None\<close>.\<close>

fun findIndex :: "('a \<Rightarrow> bool) \<Rightarrow> 'a list \<Rightarrow> nat option" where
  "findIndex P [] = None"
| "findIndex P (x # xs) = (if P x then Some 0 else map_option Suc (findIndex P xs))"

section \<open>Write-off and return: \<open>removeBatchStock\<close> (src/store.ts)\<close>

text \<open>
  The body of the \<open>map\<close> callback of \<open>removeBatchStock\<close>. A product with another id, or
  without a batch of the given number, is returned as it is. Both branches of the
  \<open>newQty === 0\<close> test are kept as the source has them.
\<close>

definition removeBatchStock_map :: "string \<Rightarrow> string \<Rightarrow> int \<Rightarrow> Product \<Rightarrow> Product" where
  "removeBatchStock_map productId bn qty p =
     (if product_id p = productId then
        (let updatedBatches = batches p in
         case findIndex (\<lambda>b. batchNumber b = bn) updatedBatches of
           Some batchIndex \<Rightarrow>
             (let currentQty = quantity (updatedBatches ! batchIndex);
                  newQty = max 0 (currentQty - qty);
                  updatedBatches' =
                    (if newQty = 0
                     then updatedBatches[batchIndex := (updatedBatches ! batchIndex)\<lparr>quantity := 0\<rparr>]
                     else updatedBatches[batchIndex := (updatedBatches ! batchIndex)\<lparr>quantity := newQty\<rparr>])
              in p\<lparr>stockLevel := max 0 (stockLevel p - qty), batches := updatedBatches'\<rparr>)
         | None \<Rightarrow> p)
      else p)"

text \<open>\<open>removeBatchStock(productId, batchNumber, quantity, reason)\<close>; the current branch id is
  read from the branch store and is a parameter here. \<open>reason\<close> is not used by the source.\<close>

definition removeBatchStock ::
  "string \<Rightarrow> string \<Rightarrow> string \<Rightarrow> int \<Rightarrow> string \<Rightarrow> ProductState \<Rightarrow> ProductState" where
  "removeBatchStock currentBranchId productId bn qty reason state =
     (let updatedAll = map (removeBatchStock_map productId bn qty) (allProducts state)
      in \<lparr>allProducts = updatedAll,
          products = filter (\<lambda>p. branchId p = currentBranchId) updatedAll\<rparr>)"

text \<open>The sum of the quantities of a product's batches, and the ledger invariant: the stock
  level is that sum and no batch is negative.\<close>

definition batchTotal :: "Product \<Rightarrow> int" where
  "batchTotal p = sum_list (map quantity (batches p))"

definition conserved :: "Product \<Rightarrow> bool" where
  "conserved p \<longleftrightarrow> stockLevel p = batchTotal p \<and> list_all (\<lambda>b. 0 \<le> quantity b) (batches p)"

section \<open>Calendar arithmetic of the JavaScript \<open>Date\<close>\<close>

text \<open>
  A \<open>Date\<close> read through its getters: year, month (0 to 11), day of the month and the
  milliseconds elapsed within the day. The day number follows ECMAScript's \<open>DayFromYear\<close>
  and \<open>MakeDay\<close>, which also accept a day of the month past the end of the month (29
  February of a common year is 1 March). The offset between local time and UTC is taken to
  be zero throughout.
\<close>

record JsDate =
  getFullYear :: int
  getMonth :: int
  getDate :: int
  getMsOfDay :: int

definition msPerDay :: int where
  "msPerDay = 86400000"

definition isLeapYear :: "int \<Rightarrow> bool" where
  "isLeapYear y = (y mod 4 = 0 \<and> (y mod 100 \<noteq> 0 \<or> y mod 400 = 0))"

definition dayFromYear :: "int \<Rightarrow> int" where
  "dayFromYear y = 365 * (y - 1970) + (y - 1969) div 4 - (y - 1901) div 100 + (y - 1601) div 400"

definition monthOffset :: "int \<Rightarrow> int" where
  "monthOffset mn =
     (if mn = 0 then 0 else if mn = 1 then 31 else if mn = 2 then 59 else if mn = 3 then 90
      else if mn = 4 then 120 else if mn = 5 then 151 else if mn = 6 then 181
      else if mn = 7 then 212 else if mn = 8 then 243 else if mn = 9 then 273
      else if mn = 10 then 304 else 334)"

definition makeDay :: "int \<Rightarrow> int \<Rightarrow> int \<Rightarrow> int" where
  "makeDay year month dt =
     (let ym = year + month div 12; mn = month mod 12
      in dayFromYear ym + monthOffset mn + (if isLeapYear ym \<and> 2 \<le> mn then 1 else 0) + dt - 1)"

text \<open>\<open>getTime()\<close>: milliseconds since the epoch.\<close>

definition getTime :: "JsDate \<Rightarrow> int" where
  "getTime d = makeDay (getFullYear d) (getMonth d) (getDate d) * msPerDay + getMsOfDay d"

text \<open>\<open>setHours(0, 0, 0, 0)\<close> and \<open>setFullYear(y)\<close>.\<close>

definition setHoursZero :: "JsDate \<Rightarrow> JsDate" where
  "setHoursZero d = d\<lparr>getMsOfDay := 0\<rparr>"

definition setFullYear :: "int \<Rightarrow> JsDate \<Rightarrow> JsDate" where
  "setFullYear y d = d\<lparr>getFullYear := y\<rparr>"

text \<open>\<open>toISOString().split('T')[0]\<close> of an instant given in milliseconds: the day it falls on.\<close>

definition isoDateOfTime :: "int \<Rightarrow> int" where
  "isoDateOfTime t = t div msPerDay"

text \<open>\<open>new Date(s).getTime()\<close> for a date string \<open>s\<close>: midnight of that day.\<close>

definition timeOfIsoDate :: "int \<Rightarrow> int" where
  "timeOfIsoDate day = day * msPerDay"

text \<open>
  Modelled from the spec: \<open>differenceInDays\<close> belongs to the date-fns package, which is not
  part of the repository. The spec reads it as the number of whole days between two
  instants; date-fns documents the result as truncated towards zero.
\<close>

definition differenceInDays :: "int \<Rightarrow> int \<Rightarrow> int" where
  "differenceInDays dateLeft dateRight =
     (if dateRight \<le> dateLeft then (dateLeft - dateRight) div msPerDay
      else - ((dateRight - dateLeft) div msPerDay))"

section \<open>Receiving stock on the server: POST /products/:productId/batches\<close>

datatype ApiError = Unauthorized | Forbidden | BadRequest | ValidationError | NotFound | NetworkError

text \<open>The authenticated user that \<open>requireAuth\<close> attaches to the request.\<close>

record ReqUser =
  user_role :: string
  user_branchId :: "string option"

record CreateBatchData =
  data_batchNumber :: string
  data_expiryDate :: int
  data_quantity :: int
  data_costPrice :: int

text \<open>
  \<open>createBatchSchema.parse\<close>: a batch number of at least one character, a quantity that is
  an integer not below 0, a cost price above 0. The date and integer checks of the schema hold
  by the types of the model.
\<close>

definition createBatchSchema_parse :: "CreateBatchData \<Rightarrow> ApiError + CreateBatchData" where
  "createBatchSchema_parse body =
     (if 1 \<le> length (data_batchNumber body) \<and> 0 \<le> data_quantity body \<and> 0 < data_costPrice body
      then Inr body else Inl ValidationError)"

text \<open>
  The handler, with its two middlewares. The database is the list of product rows, each
  holding its batch rows (the rows whose \<open>productId\<close> is the product). Ids are primary
  keys, so \<open>update({where: {id}})\<close> rewrites the row that \<open>findFirst\<close> returned; a created row
  goes to the end. The result carries the HTTP status, the batch sent back and the new
  database.
\<close>

definition post_batch ::
  "ReqUser option \<Rightarrow> string \<Rightarrow> string \<Rightarrow> CreateBatchData \<Rightarrow> Product list
     \<Rightarrow> ApiError + (nat \<times> Batch \<times> Product list)" where
  "post_batch reqUser freshId productId body db =
     (case reqUser of
        None \<Rightarrow> Inl Unauthorized
      | Some u \<Rightarrow>
          if user_role u \<notin> set [''ADMIN'', ''MANAGER'', ''PHARMACIST''] then Inl Forbidden
          else (case user_branchId u of
            None \<Rightarrow> Inl BadRequest
          | Some userBranch \<Rightarrow>
             (case createBatchSchema_parse body of
                Inl e \<Rightarrow> Inl e
              | Inr data \<Rightarrow>
                 (case findIndex (\<lambda>p. product_id p = productId \<and> branchId p = userBranch) db of
                    None \<Rightarrow> Inl NotFound
                  | Some pi \<Rightarrow>
                     (let product = db ! pi in
                      case findIndex (\<lambda>b. batchNumber b = data_batchNumber data) (batches product) of
                        Some bi \<Rightarrow>
                          (let existingBatch = batches product ! bi;
                               batch = existingBatch\<lparr>quantity := quantity existingBatch + data_quantity data,
                                                     costPrice := data_costPrice data\<rparr>
                           in Inr (200, batch,
                                db[pi := product\<lparr>batches := (batches product)[bi := batch],
                                                 stockLevel := stockLevel product + data_quantity data\<rparr>]))
                      | None \<Rightarrow>
                          (let batch = \<lparr>batch_id = freshId,
                                        batchNumber = data_batchNumber data,
                                        expiryDate = data_expiryDate data,
                                        quantity = data_quantity data,
                                        costPrice = data_costPrice data\<rparr>
                           in Inr (201, batch,
                                db[pi := product\<lparr>batches := batches product @ [batch],
                                                 stockLevel := stockLevel product + data_quantity data\<rparr>])))))))"

section \<open>Receiving stock from the client: \<open>incrementStock\<close> (src/store.ts)\<close>

text \<open>What one call needs from its surroundings: whether the request reaches the server,
  the user of the session, the id the database gives a created row, and the clock.\<close>

record Env =
  env_online :: bool
  env_user :: "ReqUser option"
  env_freshId :: string
  env_now :: JsDate

text \<open>
  The request body built by \<open>incrementStock\<close>. \<open>None\<close> stands for a missing or empty
  argument (both are falsy). \<open>Math.floor(Number(quantity)) || 0\<close> is the identity on integers.
\<close>

definition incrementStock_batchData ::
  "JsDate \<Rightarrow> string option \<Rightarrow> int \<Rightarrow> int option \<Rightarrow> int option \<Rightarrow> CreateBatchData" where
  "incrementStock_batchData now bn qty expiry cost =
     \<lparr>data_batchNumber = (case bn of None \<Rightarrow> ''DEFAULT'' | Some s \<Rightarrow> if s = [] then ''DEFAULT'' else s),
      data_expiryDate =
        (case expiry of
           Some e \<Rightarrow> e
         | None \<Rightarrow> isoDateOfTime (getTime (setFullYear (getFullYear now + 1) now))),
      data_quantity = qty,
      data_costPrice = (case cost of None \<Rightarrow> 0 | Some c \<Rightarrow> c)\<rparr>"

text \<open>
  \<open>incrementStock(id, batchNumber, quantity, unit, location, expiryDate, costPrice)\<close>: the
  request is sent, a failure is thrown on to the caller. The refresh that follows
  (\<open>fetchProducts\<close>) catches its own failures and only re-reads the database, so the
  database is the state here. \<open>unit\<close> and \<open>location\<close> are not used by the source.
\<close>

definition incrementStock ::
  "Env \<Rightarrow> string \<Rightarrow> string option \<Rightarrow> int \<Rightarrow> string option \<Rightarrow> string option \<Rightarrow> int option
     \<Rightarrow> int option \<Rightarrow> Product list \<Rightarrow> ApiError + Product list" where
  "incrementStock env pid bn qty un loc expiry cost db =
     (if \<not> env_online env then Inl NetworkError
      else case post_batch (env_user env) (env_freshId env) pid
                  (incrementStock_batchData (env_now env) bn qty expiry cost) db of
             Inl e \<Rightarrow> Inl e
           | Inr (status, batch, db') \<Rightarrow> Inr db')"

text \<open>
  The legacy \<open>_incrementStockLocal\<close> of src/store.ts, which changes the local store only. It
  is not part of the store's interface and nothing calls it. This is the body of its \<open>map\<close>
  callback: a batch number other than \<open>DEFAULT\<close> is looked up and incremented or appended;
  without a batch number, or with \<open>DEFAULT\<close>, the first batch of the product takes the
  quantity, and a \<open>DEFAULT\<close> batch is created only for a product without batches.
\<close>

definition incrementStockLocal_map ::
  "JsDate \<Rightarrow> string \<Rightarrow> string \<Rightarrow> string option \<Rightarrow> int \<Rightarrow> string option \<Rightarrow> string option
     \<Rightarrow> int option \<Rightarrow> int option \<Rightarrow> Product \<Rightarrow> Product" where
  "incrementStockLocal_map now freshId pid bn qty un loc expiry cost p =
     (if product_id p = pid then
        (let named = (case bn of
                        None \<Rightarrow> None
                      | Some b \<Rightarrow> if b \<noteq> [] \<and> b \<noteq> ''DEFAULT'' then Some b else None);
             expiryOrDefault =
               (case expiry of Some e \<Rightarrow> e | None \<Rightarrow> isoDateOfTime (getTime now + 31536000000));
             costOrZero = (case cost of Some c \<Rightarrow> c | None \<Rightarrow> 0);
             updatedBatches =
               (case named of
                  Some b \<Rightarrow>
                    (case findIndex (\<lambda>x. batchNumber x = b) (batches p) of
                       Some batchIndex \<Rightarrow>
                         (batches p)[batchIndex := (batches p ! batchIndex)
                            \<lparr>quantity := quantity (batches p ! batchIndex) + qty\<rparr>]
                     | None \<Rightarrow>
                         batches p @
                           [\<lparr>batch_id = freshId, batchNumber = b, expiryDate = expiryOrDefault,
                             quantity = qty, costPrice = costOrZero\<rparr>])
                | None \<Rightarrow>
                    if batches p \<noteq> [] then
                      (batches p)[0 := (batches p ! 0)\<lparr>quantity := quantity (batches p ! 0) + qty\<rparr>]
                    else
                      [\<lparr>batch_id = freshId, batchNumber = ''DEFAULT'', expiryDate = expiryOrDefault,
                        quantity = qty, costPrice = costOrZero\<rparr>])
         in p\<lparr>stockLevel := stockLevel p + qty,
              batches := updatedBatches,
              location := (case loc of None \<Rightarrow> location p | Some l \<Rightarrow> if l \<noteq> [] then Some l else location p),
              unit := (case un of None \<Rightarrow> unit p | Some u \<Rightarrow> if u \<noteq> [] then u else unit p)\<rparr>)
      else p)"

section \<open>Expiry analytics: \<open>useExpiryStats\<close> (src/pages/Expiry.tsx)\<close>

datatype Status = CRITICAL | WARNING | WATCH | GOOD

record ExpiryItem =
  item_id :: string
  item_product :: Product
  item_batch :: Batch
  daysRemaining :: int
  status :: Status
  valueAtRisk :: int

record Bucket =
  bucket_count :: int
  bucket_value :: int

text \<open>\<open>ExpiryStats\<close> has the four buckets of the source and no bucket for \<open>GOOD\<close>.\<close>

record ExpiryStats =
  stat_CRITICAL :: Bucket
  stat_WARNING :: Bucket
  stat_WATCH :: Bucket
  stat_ALL :: Bucket

text \<open>\<open>count++\<close> and \<open>value += valueAtRisk\<close> on one bucket.\<close>

definition addToBucket :: "int \<Rightarrow> Bucket \<Rightarrow> Bucket" where
  "addToBucket v b = b\<lparr>bucket_count := bucket_count b + 1, bucket_value := bucket_value b + v\<rparr>"

text \<open>The item pushed for one batch; \<open>today\<close> is the instant of today's midnight.\<close>

definition expiryItemOf :: "int \<Rightarrow> Product \<Rightarrow> Batch \<Rightarrow> ExpiryItem" where
  "expiryItemOf today product batch =
     (let expiry = timeOfIsoDate (expiryDate batch);
          days = differenceInDays expiry today;
          var = quantity batch * costPrice batch;
          st = (if days \<le> 30 then CRITICAL
                else if days \<le> 60 then WARNING
                else if days \<le> 90 then WATCH
                else GOOD)
      in \<lparr>item_id = product_id product @ ''-'' @ batch_id batch,
          item_product = product,
          item_batch = batch,
          daysRemaining = days,
          status = st,
          valueAtRisk = var\<rparr>)"

text \<open>The aggregation done for one item: \<open>ALL\<close> always, the item's tier unless it is \<open>GOOD\<close>.\<close>

definition aggregate :: "ExpiryStats \<Rightarrow> ExpiryItem \<Rightarrow> ExpiryStats" where
  "aggregate stats it =
     (let stats1 = stats\<lparr>stat_ALL := addToBucket (valueAtRisk it) (stat_ALL stats)\<rparr>
      in case status it of
           CRITICAL \<Rightarrow> stats1\<lparr>stat_CRITICAL := addToBucket (valueAtRisk it) (stat_CRITICAL stats1)\<rparr>
         | WARNING \<Rightarrow> stats1\<lparr>stat_WARNING := addToBucket (valueAtRisk it) (stat_WARNING stats1)\<rparr>
         | WATCH \<Rightarrow> stats1\<lparr>stat_WATCH := addToBucket (valueAtRisk it) (stat_WATCH stats1)\<rparr>
         | GOOD \<Rightarrow> stats1)"

text \<open>The body of the inner \<open>forEach\<close>: a batch without stock is skipped.\<close>

definition visitBatch ::
  "int \<Rightarrow> Product \<Rightarrow> ExpiryStats \<times> ExpiryItem list \<Rightarrow> Batch \<Rightarrow> ExpiryStats \<times> ExpiryItem list" where
  "visitBatch today product acc batch =
     (if quantity batch \<le> 0 then acc
      else (aggregate (fst acc) (expiryItemOf today product batch),
            snd acc @ [expiryItemOf today product batch]))"

definition emptyStats :: ExpiryStats where
  "emptyStats =
     \<lparr>stat_CRITICAL = \<lparr>bucket_count = 0, bucket_value = 0\<rparr>,
      stat_WARNING = \<lparr>bucket_count = 0, bucket_value = 0\<rparr>,
      stat_WATCH = \<lparr>bucket_count = 0, bucket_value = 0\<rparr>,
      stat_ALL = \<lparr>bucket_count = 0, bucket_value = 0\<rparr>\<rparr>"

text \<open>
  The hook: the clock is read and set to midnight, every batch of every product is visited
  in order, and the items are sorted by \<open>daysRemaining\<close>. \<open>Array.prototype.sort\<close> is stable,
  as \<open>sort_key\<close> is.
\<close>

definition useExpiryStats :: "JsDate \<Rightarrow> Product list \<Rightarrow> ExpiryStats \<times> ExpiryItem list" where
  "useExpiryStats now prods =
     (let today = getTime (setHoursZero now);
          acc = foldl (\<lambda>acc product. foldl (visitBatch today product) acc (batches product))
                  (emptyStats, []) prods
      in (fst acc, sort_key daysRemaining (snd acc)))"

section \<open>Return to vendor (src/pages/Expiry.tsx)\<close>

record ReturnState =
  isReturnModalOpen :: bool
  selectedReturnItem :: "ExpiryItem option"
  returnQty :: int
  isSubmittingReturn :: bool

definition initiateReturn :: "ExpiryItem \<Rightarrow> ReturnState \<Rightarrow> ReturnState" where
  "initiateReturn it st =
     st\<lparr>selectedReturnItem := Some it,
        returnQty := quantity (item_batch it),
        isReturnModalOpen := True\<rparr>"

text \<open>
  The \<open>onChange\<close> handler of the quantity field, which is shown while an item is selected.
  The argument is \<open>parseInt(e.target.value)\<close>, \<open>None\<close> for \<open>NaN\<close>.
\<close>

definition changeReturnQty :: "int option \<Rightarrow> ReturnState \<Rightarrow> ReturnState" where
  "changeReturnQty parsed st =
     (case selectedReturnItem st of
        None \<Rightarrow> st
      | Some it \<Rightarrow>
          st\<lparr>returnQty := min (case parsed of None \<Rightarrow> 0 | Some n \<Rightarrow> n) (quantity (item_batch it))\<rparr>)"

text \<open>
  \<open>confirmReturn\<close> together with the timer callback it schedules: nothing happens without a
  selected item or with a quantity of 0 or less; otherwise the store is asked to remove the
  quantity and the dialog is closed.
\<close>

definition confirmReturn ::
  "string \<Rightarrow> ReturnState \<times> ProductState \<Rightarrow> ReturnState \<times> ProductState" where
  "confirmReturn currentBranchId s =
     (case selectedReturnItem (fst s) of
        None \<Rightarrow> s
      | Some it \<Rightarrow>
          if returnQty (fst s) \<le> 0 then s
          else ((fst s)\<lparr>isSubmittingReturn := False,
                        isReturnModalOpen := False,
                        selectedReturnItem := None\<rparr>,
                removeBatchStock currentBranchId (product_id (item_product it))
                  (batchNumber (item_batch it)) (returnQty (fst s)) ''RETURN'' (snd s)))"

section \<open>Stock entry grid: scanning (src/pages/StockEntry.tsx)\<close>

text \<open>A row of the grid; the empty expiry date string is \<open>None\<close>.\<close>

record GridRow =
  row_id :: string
  row_gtin :: string
  row_productName :: string
  row_category :: string
  row_batchNumber :: string
  row_expiryDate :: "int option"
  row_quantity :: int
  row_unit :: string
  row_costPrice :: int
  row_sellingPrice :: int
  row_location :: string
  row_supplierId :: string
  row_isNew :: "bool option"
  row_isHighlighted :: "bool option"

text \<open>What the barcode parser returns. The parser (utils/gs1Parser) is not part of the
  sources and is a parameter of \<open>handleScan\<close>.\<close>

record ParsedBarcode =
  parsed_gtin :: "string option"
  parsed_batchNumber :: "string option"
  parsed_expiryDate :: "int option"
  parsed_serialNumber :: "string option"
  parsed_rawData :: string
  parsed_type :: string

definition createEmptyRow :: "string \<Rightarrow> string \<Rightarrow> GridRow" where
  "createEmptyRow freshId barcode =
     \<lparr>row_id = freshId,
      row_gtin = barcode,
      row_productName = [],
      row_category = [],
      row_batchNumber = [],
      row_expiryDate = None,
      row_quantity = 1,
      row_unit = ''PCS'',
      row_costPrice = 0,
      row_sellingPrice = 0,
      row_location = [],
      row_supplierId = [],
      row_isNew = Some True,
      row_isHighlighted = None\<rparr>"

text \<open>\<open>result.gtin || result.rawData || code\<close>: the first non-empty string.\<close>

definition scannedCodeOf :: "ParsedBarcode \<Rightarrow> string \<Rightarrow> string" where
  "scannedCodeOf result code =
     (case parsed_gtin result of
        Some g \<Rightarrow> if g \<noteq> [] then g
                  else if parsed_rawData result \<noteq> [] then parsed_rawData result else code
      | None \<Rightarrow> if parsed_rawData result \<noteq> [] then parsed_rawData result else code)"

text \<open>The new row of a scan, filled from the catalogue when the product is known.\<close>

definition prefillRow :: "ParsedBarcode \<Rightarrow> Product option \<Rightarrow> GridRow \<Rightarrow> GridRow" where
  "prefillRow result product newRow =
     (case product of
        None \<Rightarrow> newRow
      | Some p \<Rightarrow>
          newRow\<lparr>row_productName := nameEn p,
                 row_category := category p,
                 row_unit := unit p,
                 row_costPrice := (case batches p of [] \<Rightarrow> 0 | b # _ \<Rightarrow> costPrice b),
                 row_sellingPrice := price p,
                 row_location := (case location p of None \<Rightarrow> [] | Some l \<Rightarrow> l),
                 row_batchNumber :=
                   (case parsed_batchNumber result of
                      None \<Rightarrow> row_batchNumber newRow
                    | Some bn \<Rightarrow> if bn \<noteq> [] then bn else row_batchNumber newRow),
                 row_expiryDate :=
                   (case parsed_expiryDate result of
                      None \<Rightarrow> row_expiryDate newRow
                    | Some e \<Rightarrow> Some e)\<rparr>)"

text \<open>
  The state update of \<open>handleScan(code)\<close>. The id of a new row comes from the clock and a
  random number and is a parameter. The timers (focus, end of the highlight) are not part of
  the update; the end of the highlight is \<open>clearHighlight\<close>.
\<close>

definition handleScan ::
  "(string \<Rightarrow> ParsedBarcode) \<Rightarrow> Product list \<Rightarrow> string \<Rightarrow> string \<Rightarrow> GridRow list \<Rightarrow> GridRow list" where
  "handleScan parseBarcode catalogue freshId code prevData =
     (let result = parseBarcode code;
          scannedCode = scannedCodeOf result code;
          product = find (\<lambda>p. gtin p = Some scannedCode \<or> product_id p = scannedCode
                               \<or> sku p = scannedCode) catalogue
      in case findIndex (\<lambda>row. row_gtin row = scannedCode) prevData of
           Some existingRowIndex \<Rightarrow>
             (let existingRow = prevData ! existingRowIndex
              in prevData[existingRowIndex :=
                   existingRow\<lparr>row_quantity := row_quantity existingRow + 1,
                               row_isHighlighted := Some True\<rparr>])
         | None \<Rightarrow> prefillRow result product (createEmptyRow freshId scannedCode) # prevData)"

definition clearHighlight :: "string \<Rightarrow> GridRow list \<Rightarrow> GridRow list" where
  "clearHighlight rowId current =
     map (\<lambda>r. if row_id r = rowId then r\<lparr>row_isHighlighted := Some False\<rparr> else r) current"

text \<open>One scan as it reaches the grid: the catalogue at that moment, the id for a new row
  and the scanned text. \<open>scanAll\<close> applies the scans in the order they arrive.\<close>

record ScanEvent =
  scan_catalogue :: "Product list"
  scan_freshId :: string
  scan_code :: string

definition scanStep :: "(string \<Rightarrow> ParsedBarcode) \<Rightarrow> GridRow list \<Rightarrow> ScanEvent \<Rightarrow> GridRow list" where
  "scanStep parseBarcode grid ev =
     handleScan parseBarcode (scan_catalogue ev) (scan_freshId ev) (scan_code ev) grid"

definition scanAll :: "(string \<Rightarrow> ParsedBarcode) \<Rightarrow> ScanEvent list \<Rightarrow> GridRow list \<Rightarrow> GridRow list" where
  "scanAll parseBarcode evs grid = foldl (scanStep parseBarcode) grid evs"

text \<open>The identity a scan resolves to.\<close>

definition identityOf :: "(string \<Rightarrow> ParsedBarcode) \<Rightarrow> ScanEvent \<Rightarrow> string" where
  "identityOf parseBarcode ev = scannedCodeOf (parseBarcode (scan_code ev)) (scan_code ev)"

section \<open>Stock entry grid: saving (src/pages/StockEntry.tsx)\<close>

text \<open>
  The product sent to \<open>addProduct\<close> for a row that matches no catalogue product. Its ids are
  built from the clock and random numbers in the source, from the fresh id of the
  environment here. The expiry date of its batch defaults to the day that lies
  31536000000 milliseconds after now.
\<close>

definition newProductOf :: "Env \<Rightarrow> GridRow \<Rightarrow> Product" where
  "newProductOf env entry =
     \<lparr>product_id = ''p-'' @ env_freshId env,
      sku = (if row_gtin entry \<noteq> [] then row_gtin entry else ''SKU-'' @ env_freshId env),
      gtin = Some (row_gtin entry),
      nameEn = row_productName entry,
      nameMm = row_productName entry,
      genericName = None,
      category = (if row_category entry \<noteq> [] then row_category entry else ''Uncategorized''),
      description = None,
      price = row_sellingPrice entry,
      image = [],
      stockLevel = row_quantity entry,
      unit = row_unit entry,
      minStockLevel = 10,
      batches =
        [\<lparr>batch_id = ''b-'' @ env_freshId env,
          batchNumber = (if row_batchNumber entry \<noteq> [] then row_batchNumber entry else ''DEFAULT''),
          expiryDate =
            (case row_expiryDate entry of
               Some e \<Rightarrow> e
             | None \<Rightarrow> isoDateOfTime (getTime (env_now env) + 31536000000)),
          quantity = row_quantity entry,
          costPrice = row_costPrice entry\<rparr>],
      requiresPrescription = False,
      branchId =
        (case env_user env of
           None \<Rightarrow> ''b1''
         | Some u \<Rightarrow> (case user_branchId u of
                        None \<Rightarrow> ''b1''
                      | Some b \<Rightarrow> if b \<noteq> [] then b else ''b1'')),
      location = Some (row_location entry)\<rparr>"

text \<open>
  The body of the loop of \<open>handleSaveAll\<close> for a row with a product name. \<open>catalogue\<close> is the
  \<open>allProducts\<close> the handler closed over, so it is the same for every row and on both
  lookups. \<open>addProduct\<close> (the store action over POST /products) is a parameter: it fails or
  gives the new database.
\<close>

definition saveEntry ::
  "(Env \<Rightarrow> Product \<Rightarrow> Product list \<Rightarrow> ApiError + Product list) \<Rightarrow> Product list \<Rightarrow> Env
     \<Rightarrow> GridRow \<Rightarrow> Product list \<Rightarrow> ApiError + Product list" where
  "saveEntry addProduct catalogue env entry db =
     (case find (\<lambda>p. gtin p = Some (row_gtin entry) \<or> nameEn p = row_productName entry) catalogue of
        Some existing \<Rightarrow>
          incrementStock env (product_id existing)
            (Some (if row_batchNumber entry \<noteq> [] then row_batchNumber entry else ''DEFAULT''))
            (row_quantity entry) (Some (row_unit entry)) (Some (row_location entry))
            (row_expiryDate entry) (Some (row_costPrice entry)) db
      | None \<Rightarrow>
          (case addProduct env (newProductOf env entry) db of
             Inl e \<Rightarrow> Inl e
           | Inr db1 \<Rightarrow>
               (case find (\<lambda>p. gtin p = Some (row_gtin entry) \<or> nameEn p = row_productName entry)
                       catalogue of
                  Some newProduct \<Rightarrow>
                    if row_batchNumber entry \<noteq> [] \<and> row_batchNumber entry \<noteq> ''DEFAULT''
                    then incrementStock env (product_id newProduct) (Some (row_batchNumber entry))
                           (row_quantity entry) (Some (row_unit entry)) (Some (row_location entry))
                           (row_expiryDate entry) (Some (row_costPrice entry)) db1
                    else Inr db1
                | None \<Rightarrow> Inr db1)))"

text \<open>
  The \<open>for\<close> loop inside the \<open>try\<close>: rows without a product name are skipped, the first
  failure leaves the loop. The result is the database as the loop left it and the error,
  if any. \<open>envAt\<close> gives the environment each row's requests meet.
\<close>

fun saveLoop ::
  "(Env \<Rightarrow> Product \<Rightarrow> Product list \<Rightarrow> ApiError + Product list) \<Rightarrow> Product list
     \<Rightarrow> (GridRow \<Rightarrow> Env) \<Rightarrow> GridRow list \<Rightarrow> Product list \<Rightarrow> Product list \<times> ApiError option" where
  "saveLoop addProduct catalogue envAt [] db = (db, None)"
| "saveLoop addProduct catalogue envAt (entry # rest) db =
     (if row_productName entry = [] then saveLoop addProduct catalogue envAt rest db
      else case saveEntry addProduct catalogue (envAt entry) entry db of
             Inl e \<Rightarrow> (db, Some e)
           | Inr db' \<Rightarrow> saveLoop addProduct catalogue envAt rest db')"

datatype SaveOutcome = NotStarted | Saved | SaveFailed ApiError

text \<open>
  \<open>handleSaveAll\<close>: the new grid, the database and how the call ended. \<open>confirmed\<close> is the
  answer to \<open>window.confirm\<close>. Only the success path calls \<open>setGridData([])\<close>; the \<open>catch\<close>
  block resets the saving flag and raises an alert.
\<close>

definition handleSaveAll ::
  "(Env \<Rightarrow> Product \<Rightarrow> Product list \<Rightarrow> ApiError + Product list) \<Rightarrow> Product list
     \<Rightarrow> (GridRow \<Rightarrow> Env) \<Rightarrow> bool \<Rightarrow> GridRow list \<Rightarrow> Product list
     \<Rightarrow> GridRow list \<times> Product list \<times> SaveOutcome" where
  "handleSaveAll addProduct catalogue envAt confirmed gridData db =
     (if gridData = [] then (gridData, db, NotStarted)
      else if \<not> confirmed then (gridData, db, NotStarted)
      else case saveLoop addProduct catalogue envAt gridData db of
             (db', None) \<Rightarrow> ([], db', Saved)
           | (db', Some e) \<Rightarrow> (gridData, db', SaveFailed e))"

section \<open>Scanner history store (src/store.ts)\<close>

datatype SyncStatus = PENDING | SYNCED | ERROR

record ScannedItem =
  si_id :: string
  si_gtin :: "string option"
  si_productName :: "string option"
  si_batchNumber :: "string option"
  si_expiryDate :: "int option"
  si_serialNumber :: "string option"
  si_quantity :: int
  si_unit :: "string option"
  si_timestamp :: int
  si_syncStatus :: SyncStatus
  si_syncMessage :: "string option"
  si_rawData :: string
  si_type :: string
  si_scannedBy :: string
  si_verified :: "bool option"
  si_location :: "string option"
  si_costPrice :: "int option"
  si_sellingPrice :: "int option"

datatype LogAction = INSERT | UPDATE

datatype LogStatus = SUCCESS | FAILED

record SyncLog =
  log_id :: string
  log_scanId :: string
  log_action :: LogAction
  log_productName :: string
  log_oldQuantity :: int
  log_newQuantity :: int
  log_timestamp :: string
  log_status :: LogStatus

record ScannerState =
  scannedItems :: "ScannedItem list"
  syncLogs :: "SyncLog list"
  activeScan :: "ScannedItem option"

definition initialScannerState :: ScannerState where
  "initialScannerState = \<lparr>scannedItems = [], syncLogs = [], activeScan = None\<rparr>"

text \<open>The arguments of the call to \<open>incrementStock\<close> that \<open>confirmAndSync\<close> starts and does
  not wait for.\<close>

record StockCall =
  call_productId :: string
  call_batchNumber :: "string option"
  call_quantity :: int
  call_unit :: "string option"
  call_location :: "string option"
  call_expiryDate :: "int option"
  call_costPrice :: "int option"

text \<open>
  The product of a verified scan: by GTIN (a product without a GTIN never matches), and for
  a scan without a GTIN by SKU or id against the raw data.
\<close>

definition findScannedProduct :: "Product list \<Rightarrow> ScannedItem \<Rightarrow> Product option" where
  "findScannedProduct catalogue verifiedItem =
     (case find (\<lambda>p. gtin p \<noteq> None \<and> gtin p = si_gtin verifiedItem) catalogue of
        Some p \<Rightarrow> Some p
      | None \<Rightarrow>
          if si_gtin verifiedItem = None \<or> si_gtin verifiedItem = Some []
          then find (\<lambda>p. sku p = si_rawData verifiedItem \<or> product_id p = si_rawData verifiedItem)
                 catalogue
          else None)"

text \<open>
  \<open>confirmAndSync(verifiedItem)\<close>: the new store state, the boolean returned and the stock
  call started. The id and the timestamp of the log entry come from the clock and are
  parameters. \<open>slice(0, n)\<close> is \<open>take n\<close>.
\<close>

definition confirmAndSync ::
  "Product list \<Rightarrow> string \<Rightarrow> string \<Rightarrow> ScannedItem \<Rightarrow> ScannerState
     \<Rightarrow> ScannerState \<times> bool \<times> StockCall option" where
  "confirmAndSync catalogue logId logTime verifiedItem state =
     (case findScannedProduct catalogue verifiedItem of
        Some product \<Rightarrow>
          (let finalItem = verifiedItem\<lparr>si_productName := Some (nameEn product),
                                       si_syncStatus := SYNCED,
                                       si_syncMessage := Some ''Verified & Added'',
                                       si_verified := Some True\<rparr>
           in (state\<lparr>activeScan := None,
                     scannedItems := take 500 (finalItem # scannedItems state),
                     syncLogs := take 200
                       (\<lparr>log_id = logId,
                         log_scanId = si_id finalItem,
                         log_action = UPDATE,
                         log_productName = nameEn product,
                         log_oldQuantity = stockLevel product,
                         log_newQuantity = stockLevel product + si_quantity finalItem,
                         log_timestamp = logTime,
                         log_status = SUCCESS\<rparr> # syncLogs state)\<rparr>,
               True,
               Some \<lparr>call_productId = product_id product,
                     call_batchNumber = si_batchNumber verifiedItem,
                     call_quantity = si_quantity verifiedItem,
                     call_unit = si_unit verifiedItem,
                     call_location = si_location verifiedItem,
                     call_expiryDate = si_expiryDate verifiedItem,
                     call_costPrice = si_costPrice verifiedItem\<rparr>))
      | None \<Rightarrow>
          (let errorItem = verifiedItem\<lparr>si_syncStatus := ERROR,
                                       si_syncMessage :=
                                         Some ''Product not found. Please add to master list first.'',
                                       si_verified := Some True\<rparr>
           in (state\<lparr>activeScan := None,
                     scannedItems := take 500 (errorItem # scannedItems state)\<rparr>,
               False,
               None)))"

text \<open>The actions of the store that touch the history, and a run of them from the initial
  state.\<close>

datatype ScannerOp =
    Confirm "Product list" string string ScannedItem
  | SetActiveScan "ScannedItem option"
  | ClearHistory

fun applyScannerOp :: "ScannerState \<Rightarrow> ScannerOp \<Rightarrow> ScannerState" where
  "applyScannerOp state (Confirm catalogue logId logTime verifiedItem) =
     fst (confirmAndSync catalogue logId logTime verifiedItem state)"
| "applyScannerOp state (SetActiveScan it) = state\<lparr>activeScan := it\<rparr>"
| "applyScannerOp state ClearHistory = state\<lparr>scannedItems := [], syncLogs := []\<rparr>"

definition runScanner :: "ScannerOp list \<Rightarrow> ScannerState" where
  "runScanner ops = foldl applyScannerOp initialScannerState ops"

section \<open>Notions used in the statements\<close>

text \<open>The items of all batches in stock, in visiting order.\<close>

definition stockedItems :: "int \<Rightarrow> Product list \<Rightarrow> ExpiryItem list" where
  "stockedItems today prods =
     concat (map (\<lambda>p. map (expiryItemOf today p) (filter (\<lambda>b. 0 < quantity b) (batches p))) prods)"

text \<open>The quantity the grid shows for an identity: that of the first row carrying it, 0 when
  no row does.\<close>

definition quantityOf :: "string \<Rightarrow> GridRow list \<Rightarrow> int" where
  "quantityOf x grid = (case find (\<lambda>row. row_gtin row = x) grid of None \<Rightarrow> 0 | Some row \<Rightarrow> row_quantity row)"

section \<open>Example data\<close>

text \<open>A product with two lots, 5 and 10 units, and a stock level of 15; the store and the
  database that hold it; a manager of its branch.\<close>

definition demo_lotA :: Batch where
  "demo_lotA =
     \<lparr>batch_id = ''b-1'', batchNumber = ''LOT-A'', expiryDate = 19802, quantity = 5, costPrice = 100\<rparr>"

definition demo_lotB :: Batch where
  "demo_lotB =
     \<lparr>batch_id = ''b-2'', batchNumber = ''LOT-B'', expiryDate = 19900, quantity = 10, costPrice = 40\<rparr>"

definition demo_product :: Product where
  "demo_product =
     \<lparr>product_id = ''p-1'', sku = ''SKU-1'', gtin = Some ''8850001'', nameEn = ''Soap'',
      nameMm = ''Soap'', genericName = None, category = ''Care'', description = None,
      price = 150, image = [], stockLevel = 15, unit = ''PCS'', minStockLevel = 10,
      batches = [demo_lotA, demo_lotB], requiresPrescription = False, branchId = ''b1'',
      location = None\<rparr>"

definition demo_store :: ProductState where
  "demo_store = \<lparr>allProducts = [demo_product], products = [demo_product]\<rparr>"

definition demo_manager :: ReqUser where
  "demo_manager = \<lparr>user_role = ''MANAGER'', user_branchId = Some ''b1''\<rparr>"

definition demo_receive :: CreateBatchData where
  "demo_receive =
     \<lparr>data_batchNumber = ''LOT-A'', data_expiryDate = 19802, data_quantity = 7, data_costPrice = 120\<rparr>"

definition demo_now :: JsDate where
  "demo_now = \<lparr>getFullYear = 2023, getMonth = 5, getDate = 1, getMsOfDay = 43200000\<rparr>"

definition demo_env :: Env where
  "demo_env = \<lparr>env_online = True, env_user = Some demo_manager, env_freshId = ''b-9'', env_now = demo_now\<rparr>"

definition demo_lotC :: Batch where
  "demo_lotC =
     \<lparr>batch_id = ''b-3'', batchNumber = ''LOT-C'', expiryDate = 19802, quantity = 50, costPrice = 20\<rparr>"

definition demo_product2 :: Product where
  "demo_product2 = demo_product\<lparr>product_id := ''p-2'', batches := [demo_lotC], stockLevel := 50\<rparr>"

definition demo_store2 :: ProductState where
  "demo_store2 = \<lparr>allProducts = [demo_product2], products = [demo_product2]\<rparr>"

definition demo_item :: ExpiryItem where
  "demo_item =
     \<lparr>item_id = ''p-2-b-3'', item_product = demo_product2, item_batch = demo_lotC,
      daysRemaining = 19, status = CRITICAL, valueAtRisk = 1000\<rparr>"

definition demo_return :: ReturnState where
  "demo_return =
     initiateReturn demo_item
       \<lparr>isReturnModalOpen = False, selectedReturnItem = None, returnQty = 0,
        isSubmittingReturn = False\<rparr>"

definition demo_receive_zero :: CreateBatchData where
  "demo_receive_zero =
     \<lparr>data_batchNumber = ''LOT-Z'', data_expiryDate = 19802, data_quantity = 0, data_costPrice = 5\<rparr>"

definition demo_today :: JsDate where
  "demo_today = \<lparr>getFullYear = 2024, getMonth = 2, getDate = 1, getMsOfDay = 36000000\<rparr>"

definition demo_parse :: "string \<Rightarrow> ParsedBarcode" where
  "demo_parse code =
     \<lparr>parsed_gtin = None, parsed_batchNumber = None, parsed_expiryDate = None,
      parsed_serialNumber = None, parsed_rawData = code, parsed_type = ''RAW''\<rparr>"

definition demo_scanX :: ScanEvent where
  "demo_scanX = \<lparr>scan_catalogue = [demo_product], scan_freshId = ''row-1'', scan_code = ''8850001''\<rparr>"

definition demo_scanX2 :: ScanEvent where
  "demo_scanX2 = \<lparr>scan_catalogue = [demo_product], scan_freshId = ''row-2'', scan_code = ''8850001''\<rparr>"

definition demo_scanY :: ScanEvent where
  "demo_scanY = \<lparr>scan_catalogue = [demo_product], scan_freshId = ''row-3'', scan_code = ''4900002''\<rparr>"

text \<open>Three grid rows for the example product; the request of the second row meets a
  network failure.\<close>

definition demo_row :: "string \<Rightarrow> string \<Rightarrow> int \<Rightarrow> GridRow" where
  "demo_row rid bn qty =
     \<lparr>row_id = rid, row_gtin = ''8850001'', row_productName = ''Soap'', row_category = ''Care'',
      row_batchNumber = bn, row_expiryDate = Some 19900, row_quantity = qty, row_unit = ''PCS'',
      row_costPrice = 100, row_sellingPrice = 150, row_location = [], row_supplierId = [],
      row_isNew = Some True, row_isHighlighted = None\<rparr>"

definition demo_grid :: "GridRow list" where
  "demo_grid = [demo_row ''row-1'' ''LOT-A'' 3, demo_row ''row-2'' ''LOT-B'' 4, demo_row ''row-3'' ''LOT-N'' 1]"

definition demo_envAt :: "GridRow \<Rightarrow> Env" where
  "demo_envAt row = demo_env\<lparr>env_online := (row_id row \<noteq> ''row-2'')\<rparr>"

definition demo_addProduct :: "Env \<Rightarrow> Product \<Rightarrow> Product list \<Rightarrow> ApiError + Product list" where
  "demo_addProduct env p db = (if env_online env then Inr (p # db) else Inl NetworkError)"

text \<open>A verified scan of the example product, and one of an unknown code.\<close>

definition demo_scan :: ScannedItem where
  "demo_scan =
     \<lparr>si_id = ''scan-1'', si_gtin = Some ''8850001'', si_productName = Some [],
      si_batchNumber = Some ''LOT-A'', si_expiryDate = Some 19802, si_serialNumber = None,
      si_quantity = 4, si_unit = Some ''PCS'', si_timestamp = 1709287200000,
      si_syncStatus = PENDING, si_syncMessage = None, si_rawData = ''018850001'',
      si_type = ''GS1'', si_scannedBy = ''Clerk'', si_verified = Some False, si_location = None,
      si_costPrice = Some 100, si_sellingPrice = None\<rparr>"

definition demo_scan_unknown :: ScannedItem where
  "demo_scan_unknown =
     demo_scan\<lparr>si_id := ''scan-2'', si_gtin := Some ''4900002'', si_rawData := ''014900002''\<rparr>"

lemmas demo_defs = demo_lotA_def demo_lotB_def demo_product_def demo_store_def demo_manager_def
  demo_receive_def

section \<open>Facts about \<open>findIndex\<close>\<close>

lemma findIndex_Some_iff:
  "findIndex P xs = Some i \<longleftrightarrow> i < length xs \<and> P (xs ! i) \<and> (\<forall>j<i. \<not> P (xs ! j))"
proof (induction xs arbitrary: i)
  case Nil
  show ?case by simp
next
  case (Cons x xs)
  show ?case
  proof (cases "P x")
    case True
    then show ?thesis by (cases i) auto
  next
    case False
    show ?thesis
    proof (cases i)
      case 0
      with False show ?thesis by auto
    next
      case (Suc k)
      have "(\<forall>j<Suc k. \<not> P ((x # xs) ! j)) \<longleftrightarrow> (\<forall>j<k. \<not> P (xs ! j))"
        using False by (auto simp: less_Suc_eq_0_disj)
      with False Suc Cons.IH [of k] show ?thesis by auto
    qed
  qed
qed

lemma findIndex_None_iff: "findIndex P xs = None \<longleftrightarrow> (\<forall>x\<in>set xs. \<not> P x)"
  by (induction xs) auto

lemma findIndex_exists: "\<exists>x\<in>set xs. P x \<Longrightarrow> \<exists>i. findIndex P xs = Some i"
  using findIndex_None_iff [of P xs] by (cases "findIndex P xs") auto

section \<open>Effect of \<open>removeBatchStock\<close> on a batch\<close>

lemma removeBatchStock_map_found:
  assumes "product_id p = productId"
    and "findIndex (\<lambda>b. batchNumber b = bn) (batches p) = Some i"
  shows "removeBatchStock_map productId bn qty p =
           p\<lparr>stockLevel := max 0 (stockLevel p - qty),
             batches := (batches p)[i := (batches p ! i)\<lparr>quantity := max 0 (quantity (batches p ! i) - qty)\<rparr>]\<rparr>"
  using assms by (simp add: removeBatchStock_map_def Let_def)

lemma removeBatchStock_map_missing:
  assumes "findIndex (\<lambda>b. batchNumber b = bn) (batches p) = None"
  shows "removeBatchStock_map productId bn qty p = p"
  using assms by (simp add: removeBatchStock_map_def)

lemma removeBatchStock_map_other:
  assumes "product_id p \<noteq> productId"
  shows "removeBatchStock_map productId bn qty p = p"
  using assms by (simp add: removeBatchStock_map_def)

text \<open>
  C2. \<open>removeBatchStock\<close> keeps the number and order of products. In the addressed product,
  when a batch with the given number exists, the first such batch gets the quantity
  \<open>max 0 (quantity - delta)\<close> and stays in the list at its index, every other batch is
  untouched; when no batch has that number, or the product has another id, the product is
  left exactly as it was.
\<close>

theorem removeBatchStock_floor_retain_noop:
  assumes k: "k < length (allProducts state)"
  shows "let p = allProducts state ! k;
             p' = allProducts (removeBatchStock currentBranchId productId bn qty reason state) ! k
         in length (allProducts (removeBatchStock currentBranchId productId bn qty reason state))
              = length (allProducts state) \<and>
            (product_id p = productId \<and> (\<exists>b\<in>set (batches p). batchNumber b = bn) \<longrightarrow>
               (\<exists>i<length (batches p). batchNumber (batches p ! i) = bn \<and>
                  batches p' = (batches p)[i := (batches p ! i)\<lparr>quantity := max 0 (quantity (batches p ! i) - qty)\<rparr>] \<and>
                  length (batches p') = length (batches p) \<and>
                  0 \<le> quantity (batches p' ! i) \<and> batchNumber (batches p' ! i) = bn)) \<and>
            (\<not> (\<exists>b\<in>set (batches p). batchNumber b = bn) \<longrightarrow> p' = p) \<and>
            (product_id p \<noteq> productId \<longrightarrow> p' = p)"
proof -
  define p where "p = allProducts state ! k"
  define p' where "p' = allProducts (removeBatchStock currentBranchId productId bn qty reason state) ! k"
  have p': "p' = removeBatchStock_map productId bn qty p"
    using k by (simp add: p'_def p_def removeBatchStock_def Let_def)
  have len: "length (allProducts (removeBatchStock currentBranchId productId bn qty reason state))
               = length (allProducts state)"
    by (simp add: removeBatchStock_def Let_def)
  have missing: "p' = p" if "\<not> (\<exists>b\<in>set (batches p). batchNumber b = bn)"
  proof -
    from that have "findIndex (\<lambda>b. batchNumber b = bn) (batches p) = None"
      by (simp add: findIndex_None_iff)
    then show ?thesis by (simp add: p' removeBatchStock_map_missing)
  qed
  have other: "p' = p" if "product_id p \<noteq> productId"
    using that by (simp add: p' removeBatchStock_map_other)
  have found: "\<exists>i<length (batches p). batchNumber (batches p ! i) = bn \<and>
          batches p' = (batches p)[i := (batches p ! i)\<lparr>quantity := max 0 (quantity (batches p ! i) - qty)\<rparr>] \<and>
          length (batches p') = length (batches p) \<and>
          0 \<le> quantity (batches p' ! i) \<and> batchNumber (batches p' ! i) = bn"
    if pid: "product_id p = productId" and ex: "\<exists>b\<in>set (batches p). batchNumber b = bn"
  proof -
    from ex obtain i where i: "findIndex (\<lambda>b. batchNumber b = bn) (batches p) = Some i"
      using findIndex_exists [of "batches p" "\<lambda>b. batchNumber b = bn"] by blast
    then have il: "i < length (batches p)" and bi: "batchNumber (batches p ! i) = bn"
      by (simp_all add: findIndex_Some_iff)
    have "batches p' = (batches p)[i := (batches p ! i)\<lparr>quantity := max 0 (quantity (batches p ! i) - qty)\<rparr>]"
      by (simp add: p' removeBatchStock_map_found [OF pid i])
    with il bi show ?thesis by auto
  qed
  from len missing other found show ?thesis
    unfolding Let_def p_def [symmetric] p'_def [symmetric] by blast
qed

theorem removeBatchStock_floor_retain_noop_witness:
  "map quantity (batches (allProducts (removeBatchStock ''b1'' ''p-1'' ''LOT-A'' 8 ''RETURN'' demo_store) ! 0)) = [0, 10]
   \<and> length (batches (allProducts (removeBatchStock ''b1'' ''p-1'' ''LOT-A'' 8 ''RETURN'' demo_store) ! 0)) = 2
   \<and> allProducts (removeBatchStock ''b1'' ''p-1'' ''LOT-Z'' 8 ''RETURN'' demo_store) ! 0 = demo_product
   \<and> allProducts (removeBatchStock ''b1'' ''p-9'' ''LOT-A'' 8 ''RETURN'' demo_store) ! 0 = demo_product"
proof -
  have k: "0 < length (allProducts demo_store)" by (simp add: demo_defs)
  note found = removeBatchStock_floor_retain_noop [OF k, of "''b1''" "''p-1''" "''LOT-A''" 8 "''RETURN''"]
  note missing = removeBatchStock_floor_retain_noop [OF k, of "''b1''" "''p-1''" "''LOT-Z''" 8 "''RETURN''"]
  note other = removeBatchStock_floor_retain_noop [OF k, of "''b1''" "''p-9''" "''LOT-A''" 8 "''RETURN''"]
  have "product_id (allProducts demo_store ! 0) = ''p-1''"
    by (simp add: demo_defs)
  moreover have "\<exists>b\<in>set (batches (allProducts demo_store ! 0)). batchNumber b = ''LOT-A''"
    by (simp add: demo_defs)
  moreover have "\<not> (\<exists>b\<in>set (batches (allProducts demo_store ! 0)). batchNumber b = ''LOT-Z'')"
    by (simp add: demo_defs)
  moreover have "product_id (allProducts demo_store ! 0) \<noteq> ''p-9''"
    by (simp add: demo_defs)
  moreover have "allProducts demo_store ! 0 = demo_product"
    by (simp add: demo_defs)
  ultimately show ?thesis
    using found missing other
    apply (simp add: Let_def)
    apply (auto simp: demo_defs less_Suc_eq)
    done
qed

section \<open>The ledger: sums, receive, write-off\<close>

lemma sum_list_map_update:
  fixes f :: "'a \<Rightarrow> int"
  shows "i < length xs \<Longrightarrow> sum_list (map f (xs[i := y])) = sum_list (map f xs) - f (xs ! i) + f y"
proof (induction xs arbitrary: i)
  case Nil
  then show ?case by simp
next
  case (Cons x xs)
  then show ?case by (cases i) auto
qed

lemma sum_list_nonneg_ge_elem:
  fixes f :: "'a \<Rightarrow> int"
  assumes "\<forall>x\<in>set xs. 0 \<le> f x" and "i < length xs"
  shows "f (xs ! i) \<le> sum_list (map f xs)"
  using assms
proof (induction xs arbitrary: i)
  case Nil
  then show ?case by simp
next
  case (Cons x xs)
  have nn: "0 \<le> sum_list (map f xs)"
    using Cons.prems(1) by (intro sum_list_nonneg) auto
  show ?case
  proof (cases i)
    case 0
    with nn show ?thesis by simp
  next
    case (Suc k)
    with Cons have "f (xs ! k) \<le> sum_list (map f xs)" by auto
    moreover have "0 \<le> f x" using Cons.prems(1) by simp
    ultimately show ?thesis using Suc by simp
  qed
qed

lemma post_batch_found:
  assumes "reqUser = Some u" and "user_role u \<in> {''ADMIN'', ''MANAGER'', ''PHARMACIST''}"
    and "user_branchId u = Some ub"
    and "data_batchNumber body \<noteq> []" and "0 \<le> data_quantity body" and "0 < data_costPrice body"
    and "findIndex (\<lambda>p. product_id p = productId \<and> branchId p = ub) db = Some pi"
    and "findIndex (\<lambda>b. batchNumber b = data_batchNumber body) (batches (db ! pi)) = Some bi"
  shows "post_batch reqUser freshId productId body db =
           Inr (200,
                (batches (db ! pi) ! bi)\<lparr>quantity := quantity (batches (db ! pi) ! bi) + data_quantity body,
                                          costPrice := data_costPrice body\<rparr>,
                db[pi := (db ! pi)\<lparr>batches := (batches (db ! pi))[bi :=
                              (batches (db ! pi) ! bi)\<lparr>quantity := quantity (batches (db ! pi) ! bi) + data_quantity body,
                                                        costPrice := data_costPrice body\<rparr>],
                            stockLevel := stockLevel (db ! pi) + data_quantity body\<rparr>])"
proof -
  have "createBatchSchema_parse body = Inr body"
    using assms(4-6) by (cases "data_batchNumber body") (simp_all add: createBatchSchema_parse_def)
  then show ?thesis
    using assms(1-3,7,8) by (simp add: post_batch_def Let_def)
qed

lemma post_batch_created:
  assumes "reqUser = Some u" and "user_role u \<in> {''ADMIN'', ''MANAGER'', ''PHARMACIST''}"
    and "user_branchId u = Some ub"
    and "data_batchNumber body \<noteq> []" and "0 \<le> data_quantity body" and "0 < data_costPrice body"
    and "findIndex (\<lambda>p. product_id p = productId \<and> branchId p = ub) db = Some pi"
    and "findIndex (\<lambda>b. batchNumber b = data_batchNumber body) (batches (db ! pi)) = None"
  shows "post_batch reqUser freshId productId body db =
           Inr (201,
                \<lparr>batch_id = freshId, batchNumber = data_batchNumber body,
                  expiryDate = data_expiryDate body, quantity = data_quantity body,
                  costPrice = data_costPrice body\<rparr>,
                db[pi := (db ! pi)\<lparr>batches := batches (db ! pi) @
                              [\<lparr>batch_id = freshId, batchNumber = data_batchNumber body,
                                expiryDate = data_expiryDate body, quantity = data_quantity body,
                                costPrice = data_costPrice body\<rparr>],
                            stockLevel := stockLevel (db ! pi) + data_quantity body\<rparr>])"
proof -
  have "createBatchSchema_parse body = Inr body"
    using assms(4-6) by (cases "data_batchNumber body") (simp_all add: createBatchSchema_parse_def)
  then show ?thesis
    using assms(1-3,7,8) by (simp add: post_batch_def Let_def)
qed

lemma post_batch_rejects_negative:
  assumes "data_quantity body < 0"
  shows "\<exists>e. post_batch reqUser freshId productId body db = Inl e"
proof -
  have "createBatchSchema_parse body = Inl ValidationError"
    using assms by (simp add: createBatchSchema_parse_def)
  then show ?thesis
    by (simp add: post_batch_def split: option.splits)
qed






section \<open>Conservation of the stock level\<close>

lemma removeBatchStock_map_conserved_in_range:
  assumes c: "conserved p"
    and range: "\<And>i. findIndex (\<lambda>b. batchNumber b = bn) (batches p) = Some i
                  \<Longrightarrow> 0 \<le> qty \<and> qty \<le> quantity (batches p ! i)"
  shows "conserved (removeBatchStock_map productId bn qty p)"
proof (cases "product_id p = productId")
  case False
  with c show ?thesis by (simp add: removeBatchStock_map_other)
next
  case True
  show ?thesis
  proof (cases "findIndex (\<lambda>b. batchNumber b = bn) (batches p)")
    case None
    with c show ?thesis by (simp add: removeBatchStock_map_missing)
  next
    case (Some i)
    from Some have il: "i < length (batches p)" by (simp add: findIndex_Some_iff)
    from range [OF Some] have q: "0 \<le> qty" "qty \<le> quantity (batches p ! i)" by simp_all
    from c have nn: "\<forall>b\<in>set (batches p). 0 \<le> quantity b"
      by (simp add: conserved_def list_all_iff)
    have le: "quantity (batches p ! i) \<le> batchTotal p"
      unfolding batchTotal_def by (rule sum_list_nonneg_ge_elem [OF nn il])
    have st: "stockLevel p = batchTotal p" using c by (simp add: conserved_def)
    have all: "\<forall>b\<in>set ((batches p)[i := (batches p ! i)\<lparr>quantity := max 0 (quantity (batches p ! i) - qty)\<rparr>]). 0 \<le> quantity b"
      using nn by (auto dest!: set_update_subset_insert [THEN subsetD])
    show ?thesis
      using q le st all il
      by (simp add: removeBatchStock_map_found [OF True Some] conserved_def batchTotal_def
          sum_list_map_update list_all_iff max_def)
  qed
qed

lemma post_batch_Inr_cases:
  assumes "post_batch reqUser freshId productId body db = Inr r"
  obtains u ub pi where "reqUser = Some u"
    and "user_role u \<in> {''ADMIN'', ''MANAGER'', ''PHARMACIST''}"
    and "user_branchId u = Some ub"
    and "data_batchNumber body \<noteq> []" and "0 \<le> data_quantity body" and "0 < data_costPrice body"
    and "findIndex (\<lambda>p. product_id p = productId \<and> branchId p = ub) db = Some pi"
proof -
  from assms obtain u where u: "reqUser = Some u"
    by (cases reqUser) (simp_all add: post_batch_def)
  from assms u have role: "user_role u \<in> {''ADMIN'', ''MANAGER'', ''PHARMACIST''}"
    by (simp add: post_batch_def split: if_splits)
  from assms u role obtain ub where ub: "user_branchId u = Some ub"
    by (cases "user_branchId u") (auto simp: post_batch_def split: if_splits)
  have parse: "createBatchSchema_parse body = Inr body"
  proof (rule ccontr)
    assume "createBatchSchema_parse body \<noteq> Inr body"
    then have "createBatchSchema_parse body = Inl ValidationError"
      by (simp add: createBatchSchema_parse_def split: if_splits)
    with assms u role ub show False by (auto simp: post_batch_def split: if_splits)
  qed
  then have valid: "data_batchNumber body \<noteq> []" "0 \<le> data_quantity body" "0 < data_costPrice body"
    by (auto simp: createBatchSchema_parse_def split: if_splits)
  from assms u role ub parse obtain pi
    where "findIndex (\<lambda>p. product_id p = productId \<and> branchId p = ub) db = Some pi"
    by (cases "findIndex (\<lambda>p. product_id p = productId \<and> branchId p = ub) db")
       (auto simp: post_batch_def split: if_splits)
  with u role ub valid show thesis by (rule that)
qed

lemma post_batch_conserved:
  assumes res: "post_batch reqUser freshId productId body db = Inr (st, batch, db')"
    and inv: "\<forall>p\<in>set db. conserved p"
  shows "\<forall>p\<in>set db'. conserved p"
proof -
  from res obtain u ub pi where user: "reqUser = Some u"
      "user_role u \<in> {''ADMIN'', ''MANAGER'', ''PHARMACIST''}" "user_branchId u = Some ub"
    and valid: "data_batchNumber body \<noteq> []" "0 \<le> data_quantity body" "0 < data_costPrice body"
    and prod: "findIndex (\<lambda>p. product_id p = productId \<and> branchId p = ub) db = Some pi"
    by (rule post_batch_Inr_cases)
  from prod have pi: "pi < length db" by (simp add: findIndex_Some_iff)
  with inv have c: "conserved (db ! pi)" by simp
  then have stock: "stockLevel (db ! pi) = sum_list (map quantity (batches (db ! pi)))"
    and nn: "\<forall>b\<in>set (batches (db ! pi)). 0 \<le> quantity b"
    by (simp_all add: conserved_def batchTotal_def list_all_iff)
  have "\<exists>p'. db' = db[pi := p'] \<and> conserved p'"
  proof (cases "findIndex (\<lambda>b. batchNumber b = data_batchNumber body) (batches (db ! pi))")
    case None
    from trans [OF res [symmetric] post_batch_created [OF user valid prod None, of freshId]]
    have "db' = db[pi := (db ! pi)\<lparr>batches := batches (db ! pi) @
                    [\<lparr>batch_id = freshId, batchNumber = data_batchNumber body,
                      expiryDate = data_expiryDate body, quantity = data_quantity body,
                      costPrice = data_costPrice body\<rparr>],
                  stockLevel := stockLevel (db ! pi) + data_quantity body\<rparr>]"
      by simp
    moreover have "conserved ((db ! pi)\<lparr>batches := batches (db ! pi) @
                    [\<lparr>batch_id = freshId, batchNumber = data_batchNumber body,
                      expiryDate = data_expiryDate body, quantity = data_quantity body,
                      costPrice = data_costPrice body\<rparr>],
                  stockLevel := stockLevel (db ! pi) + data_quantity body\<rparr>)"
      using stock nn valid(2) by (simp add: conserved_def batchTotal_def list_all_iff)
    ultimately show ?thesis by blast
  next
    case (Some bi)
    from Some have bi: "bi < length (batches (db ! pi))" by (simp add: findIndex_Some_iff)
    let ?upd = "(batches (db ! pi) ! bi)\<lparr>quantity := quantity (batches (db ! pi) ! bi) + data_quantity body,
                                            costPrice := data_costPrice body\<rparr>"
    from trans [OF res [symmetric] post_batch_found [OF user valid prod Some, of freshId]]
    have "db' = db[pi := (db ! pi)\<lparr>batches := (batches (db ! pi))[bi := ?upd],
                  stockLevel := stockLevel (db ! pi) + data_quantity body\<rparr>]"
      by simp
    moreover have "0 \<le> quantity (batches (db ! pi) ! bi)" using nn bi by simp
    then have "\<forall>b\<in>set ((batches (db ! pi))[bi := ?upd]). 0 \<le> quantity b"
      using nn valid(2) by (auto dest!: set_update_subset_insert [THEN subsetD])
    then have "conserved ((db ! pi)\<lparr>batches := (batches (db ! pi))[bi := ?upd],
                  stockLevel := stockLevel (db ! pi) + data_quantity body\<rparr>)"
      using stock bi by (simp add: conserved_def batchTotal_def list_all_iff sum_list_map_update)
    ultimately show ?thesis by blast
  qed
  then obtain p' where "db' = db[pi := p']" and "conserved p'" by blast
  with inv show ?thesis
    by (auto dest!: set_update_subset_insert [THEN subsetD])
qed

text \<open>
  C1. The stock level of a product is meant to equal the sum of its batch quantities after
  every mutation. Receiving keeps it (\<open>post_batch_conserved\<close>), and so does a write-off of
  at most the quantity on hand (\<open>removeBatchStock_map_conserved_in_range\<close>). A write-off of
  more than the batch holds does not: on a product with lots of 5 and 10 units and stock
  level 15, removing 8 units from the first lot empties the lot (5 units leave) but takes
  8 from the stock level, which ends at 7 while the batches sum to 10.
\<close>

theorem removeBatchStock_oversubtract_breaks_sum:
  "stockLevel demo_product = batchTotal demo_product
   \<and> stockLevel (allProducts (removeBatchStock ''b1'' ''p-1'' ''LOT-A'' 8 ''RETURN'' demo_store) ! 0) = 7
   \<and> batchTotal (allProducts (removeBatchStock ''b1'' ''p-1'' ''LOT-A'' 8 ''RETURN'' demo_store) ! 0) = 10"
  by (simp add: removeBatchStock_def removeBatchStock_map_def batchTotal_def demo_defs Let_def)

section \<open>Defaults of a receive\<close>


lemma isoDateOfTime_plus_365_days:
  "isoDateOfTime (t + 31536000000) = isoDateOfTime t + 365"
  by (simp add: isoDateOfTime_def msPerDay_def)









section \<open>Quantity guards of returns and receives\<close>

lemmas demo2_defs = demo_lotC_def demo_product2_def demo_store2_def demo_item_def demo_return_def
  demo_receive_zero_def

text \<open>
  C7 as stated fails. The return dialog never rejects a quantity above the quantity on hand:
  typing 10000 against a batch of 50 stores 50 as the return quantity, and confirming writes
  the batch down to 0, not back to 50; \<open>removeBatchStock\<close> called with 10000 itself floors the
  batch at 0. On the receive side a quantity of 0 passes the schema: the request is answered
  with status 201 and a batch row is created.
\<close>

theorem quantity_rejection_counterexample:
  "returnQty (changeReturnQty (Some 10000) demo_return) = 50
   \<and> map quantity (batches (allProducts (snd (confirmReturn ''b1''
          (changeReturnQty (Some 10000) demo_return, demo_store2))) ! 0)) = [0]
   \<and> map quantity (batches (allProducts (removeBatchStock ''b1'' ''p-2'' ''LOT-C'' 10000 ''RETURN''
          demo_store2) ! 0)) = [0]
   \<and> post_batch (Some demo_manager) ''b-9'' ''p-2'' demo_receive_zero [demo_product2]
       = Inr (201,
              \<lparr>batch_id = ''b-9'', batchNumber = ''LOT-Z'', expiryDate = 19802, quantity = 0,
                costPrice = 5\<rparr>,
              [demo_product2\<lparr>batches := [demo_lotC,
                 \<lparr>batch_id = ''b-9'', batchNumber = ''LOT-Z'', expiryDate = 19802, quantity = 0,
                   costPrice = 5\<rparr>]\<rparr>])"
  by (simp add: changeReturnQty_def confirmReturn_def initiateReturn_def removeBatchStock_def
      removeBatchStock_map_def post_batch_def createBatchSchema_parse_def demo_defs demo2_defs Let_def)

text \<open>
  C7 (amended). Confirming a return with no item selected or with a quantity of 0 or less
  changes neither the dialog nor the store. A quantity typed into the dialog is never above
  the quantity on hand: a larger value is clamped down to it, and a confirmed return removes
  the clamped quantity. A receive with a negative quantity is answered with an error by the
  server and by \<open>incrementStock\<close>, so no new database is produced.
\<close>

theorem quantity_guards:
  "(selectedReturnItem st = None \<or> returnQty st \<le> 0 \<longrightarrow>
      confirmReturn currentBranchId (st, store) = (st, store)) \<and>
   (selectedReturnItem st = Some it \<longrightarrow>
      returnQty (changeReturnQty parsed st) \<le> quantity (item_batch it) \<and>
      (\<forall>n. parsed = Some n \<and> quantity (item_batch it) \<le> n \<longrightarrow>
         returnQty (changeReturnQty parsed st) = quantity (item_batch it))) \<and>
   (selectedReturnItem st = Some it \<and> 0 < returnQty st \<longrightarrow>
      snd (confirmReturn currentBranchId (st, store)) =
        removeBatchStock currentBranchId (product_id (item_product it)) (batchNumber (item_batch it))
          (returnQty st) ''RETURN'' store) \<and>
   (data_quantity body < 0 \<longrightarrow> (\<exists>e. post_batch reqUser freshId productId body db = Inl e)) \<and>
   (qty < 0 \<longrightarrow> (\<exists>e. incrementStock env productId bn qty un loc expiry cost db = Inl e))"
proof -
  have a: "selectedReturnItem st = None \<or> returnQty st \<le> 0 \<longrightarrow>
      confirmReturn currentBranchId (st, store) = (st, store)"
    by (auto simp: confirmReturn_def split: option.splits)
  have b: "selectedReturnItem st = Some it \<longrightarrow>
      returnQty (changeReturnQty parsed st) \<le> quantity (item_batch it) \<and>
      (\<forall>n. parsed = Some n \<and> quantity (item_batch it) \<le> n \<longrightarrow>
         returnQty (changeReturnQty parsed st) = quantity (item_batch it))"
    by (auto simp: changeReturnQty_def)
  have c: "selectedReturnItem st = Some it \<and> 0 < returnQty st \<longrightarrow>
      snd (confirmReturn currentBranchId (st, store)) =
        removeBatchStock currentBranchId (product_id (item_product it)) (batchNumber (item_batch it))
          (returnQty st) ''RETURN'' store"
    by (auto simp: confirmReturn_def)
  have d: "data_quantity body < 0 \<longrightarrow> (\<exists>e. post_batch reqUser freshId productId body db = Inl e)"
    using post_batch_rejects_negative by blast
  have e: "qty < 0 \<longrightarrow> (\<exists>e. incrementStock env productId bn qty un loc expiry cost db = Inl e)"
  proof
    assume "qty < 0"
    then have "data_quantity (incrementStock_batchData (env_now env) bn qty expiry cost) < 0"
      by (simp add: incrementStock_batchData_def)
    from post_batch_rejects_negative [OF this]
    obtain e where "post_batch (env_user env) (env_freshId env) productId
                      (incrementStock_batchData (env_now env) bn qty expiry cost) db = Inl e"
      by blast
    then show "\<exists>e. incrementStock env productId bn qty un loc expiry cost db = Inl e"
      by (simp add: incrementStock_def)
  qed
  from a b c d e show ?thesis by blast
qed

theorem quantity_guards_witness:
  "confirmReturn ''b1'' (changeReturnQty (Some 0) demo_return, demo_store2)
     = (changeReturnQty (Some 0) demo_return, demo_store2)
   \<and> returnQty (changeReturnQty (Some 10000) demo_return) = 50
   \<and> snd (confirmReturn ''b1'' (demo_return, demo_store2))
       = removeBatchStock ''b1'' ''p-2'' ''LOT-C'' 50 ''RETURN'' demo_store2
   \<and> (\<exists>e. post_batch (Some demo_manager) ''b-9'' ''p-2'' (demo_receive_zero\<lparr>data_quantity := - 3\<rparr>)
            [demo_product2] = Inl e)
   \<and> (\<exists>e. incrementStock demo_env ''p-2'' (Some ''LOT-C'') (- 3) None None None (Some 5)
            [demo_product2] = Inl e)"
proof -
  have zero: "returnQty (changeReturnQty (Some 0) demo_return) \<le> 0"
    by (simp add: changeReturnQty_def demo2_defs initiateReturn_def)
  have sel: "selectedReturnItem demo_return = Some demo_item"
    by (simp add: demo_return_def initiateReturn_def)
  have pos: "0 < returnQty demo_return" "returnQty demo_return = 50"
    by (simp_all add: demo2_defs initiateReturn_def)
  have big: "quantity (item_batch demo_item) \<le> 10000" "quantity (item_batch demo_item) = 50"
    by (simp_all add: demo2_defs)
  have ids: "product_id (item_product demo_item) = ''p-2''" "batchNumber (item_batch demo_item) = ''LOT-C''"
    by (simp_all add: demo2_defs)
  have neg: "data_quantity (demo_receive_zero\<lparr>data_quantity := - 3\<rparr>) < 0" "(- 3 :: int) < 0"
    by simp_all
  note g1 = quantity_guards [where st = "changeReturnQty (Some 0) demo_return"
      and currentBranchId = "''b1''" and store = demo_store2]
  note g2 = quantity_guards [where st = demo_return and it = demo_item and parsed = "Some 10000"
      and currentBranchId = "''b1''" and store = demo_store2
      and body = "demo_receive_zero\<lparr>data_quantity := - 3\<rparr>" and reqUser = "Some demo_manager"
      and freshId = "''b-9''" and productId = "''p-2''" and db = "[demo_product2]" and qty = "- 3"
      and env = demo_env and bn = "Some ''LOT-C''" and un = None and loc = None and expiry = None
      and cost = "Some 5"]
  from g1 zero have c1: "confirmReturn ''b1'' (changeReturnQty (Some 0) demo_return, demo_store2)
     = (changeReturnQty (Some 0) demo_return, demo_store2)"
    by blast
  from g2 sel big have c2: "returnQty (changeReturnQty (Some 10000) demo_return) = 50"
    by auto
  from g2 sel pos ids have c3: "snd (confirmReturn ''b1'' (demo_return, demo_store2))
       = removeBatchStock ''b1'' ''p-2'' ''LOT-C'' 50 ''RETURN'' demo_store2"
    by auto
  from g2 neg have c4: "\<exists>e. post_batch (Some demo_manager) ''b-9'' ''p-2''
            (demo_receive_zero\<lparr>data_quantity := - 3\<rparr>) [demo_product2] = Inl e"
    and c5: "\<exists>e. incrementStock demo_env ''p-2'' (Some ''LOT-C'') (- 3) None None None (Some 5)
            [demo_product2] = Inl e"
    by blast+
  from c1 c2 c3 c4 c5 show ?thesis by blast
qed

section \<open>The expiry classifier\<close>

lemma visitBatch_fold:
  "foldl (visitBatch today product) acc bs =
     (foldl aggregate (fst acc) (map (expiryItemOf today product) (filter (\<lambda>b. 0 < quantity b) bs)),
      snd acc @ map (expiryItemOf today product) (filter (\<lambda>b. 0 < quantity b) bs))"
proof (induction bs arbitrary: acc)
  case Nil
  show ?case by simp
next
  case (Cons b bs)
  show ?case
  proof (cases "quantity b \<le> 0")
    case True
    then have "visitBatch today product acc b = acc" by (simp add: visitBatch_def)
    with True Cons.IH [of acc] show ?thesis by simp
  next
    case False
    then have "visitBatch today product acc b =
        (aggregate (fst acc) (expiryItemOf today product b), snd acc @ [expiryItemOf today product b])"
      by (simp add: visitBatch_def)
    with False Cons.IH [of "(aggregate (fst acc) (expiryItemOf today product b),
        snd acc @ [expiryItemOf today product b])"] show ?thesis by simp
  qed
qed

lemma products_fold:
  "foldl (\<lambda>acc product. foldl (visitBatch today product) acc (batches product)) acc prods =
     (foldl aggregate (fst acc) (stockedItems today prods), snd acc @ stockedItems today prods)"
proof (induction prods arbitrary: acc)
  case Nil
  show ?case by (simp add: stockedItems_def)
next
  case (Cons p ps)
  have "foldl (\<lambda>acc product. foldl (visitBatch today product) acc (batches product)) acc (p # ps) =
          (foldl aggregate (fst (foldl (visitBatch today p) acc (batches p))) (stockedItems today ps),
           snd (foldl (visitBatch today p) acc (batches p)) @ stockedItems today ps)"
    by (simp only: foldl_Cons Cons.IH)
  also have "\<dots> = (foldl aggregate (fst acc) (stockedItems today (p # ps)),
                     snd acc @ stockedItems today (p # ps))"
    by (simp add: visitBatch_fold stockedItems_def)
  finally show ?case .
qed

lemma useExpiryStats_eq:
  "useExpiryStats now prods =
     (foldl aggregate emptyStats (stockedItems (getTime (setHoursZero now)) prods),
      sort_key daysRemaining (stockedItems (getTime (setHoursZero now)) prods))"
  by (simp add: useExpiryStats_def Let_def products_fold)







lemma aggregate_step:
  "bucket_count (stat_ALL (aggregate s it)) = bucket_count (stat_ALL s) + 1"
  "bucket_value (stat_ALL (aggregate s it)) = bucket_value (stat_ALL s) + valueAtRisk it"
  "bucket_count (stat_CRITICAL (aggregate s it)) =
     bucket_count (stat_CRITICAL s) + (if status it = CRITICAL then 1 else 0)"
  "bucket_value (stat_CRITICAL (aggregate s it)) =
     bucket_value (stat_CRITICAL s) + (if status it = CRITICAL then valueAtRisk it else 0)"
  "bucket_count (stat_WARNING (aggregate s it)) =
     bucket_count (stat_WARNING s) + (if status it = WARNING then 1 else 0)"
  "bucket_value (stat_WARNING (aggregate s it)) =
     bucket_value (stat_WARNING s) + (if status it = WARNING then valueAtRisk it else 0)"
  "bucket_count (stat_WATCH (aggregate s it)) =
     bucket_count (stat_WATCH s) + (if status it = WATCH then 1 else 0)"
  "bucket_value (stat_WATCH (aggregate s it)) =
     bucket_value (stat_WATCH s) + (if status it = WATCH then valueAtRisk it else 0)"
  by (cases "status it"; simp add: aggregate_def addToBucket_def Let_def)+

lemma aggregate_fold_ALL:
  "bucket_count (stat_ALL (foldl aggregate s its)) = bucket_count (stat_ALL s) + int (length its)"
  "bucket_value (stat_ALL (foldl aggregate s its)) =
     bucket_value (stat_ALL s) + sum_list (map valueAtRisk its)"
  by (induction its arbitrary: s) (simp_all add: aggregate_step)

lemma aggregate_fold_CRITICAL:
  "bucket_count (stat_CRITICAL (foldl aggregate s its)) =
     bucket_count (stat_CRITICAL s) + int (length (filter (\<lambda>it. status it = CRITICAL) its))"
  "bucket_value (stat_CRITICAL (foldl aggregate s its)) =
     bucket_value (stat_CRITICAL s) + sum_list (map valueAtRisk (filter (\<lambda>it. status it = CRITICAL) its))"
  by (induction its arbitrary: s) (simp_all add: aggregate_step)

lemma aggregate_fold_WARNING:
  "bucket_count (stat_WARNING (foldl aggregate s its)) =
     bucket_count (stat_WARNING s) + int (length (filter (\<lambda>it. status it = WARNING) its))"
  "bucket_value (stat_WARNING (foldl aggregate s its)) =
     bucket_value (stat_WARNING s) + sum_list (map valueAtRisk (filter (\<lambda>it. status it = WARNING) its))"
  by (induction its arbitrary: s) (simp_all add: aggregate_step)

lemma aggregate_fold_WATCH:
  "bucket_count (stat_WATCH (foldl aggregate s its)) =
     bucket_count (stat_WATCH s) + int (length (filter (\<lambda>it. status it = WATCH) its))"
  "bucket_value (stat_WATCH (foldl aggregate s its)) =
     bucket_value (stat_WATCH s) + sum_list (map valueAtRisk (filter (\<lambda>it. status it = WATCH) its))"
  by (induction its arbitrary: s) (simp_all add: aggregate_step)

lemma sum_list_sort_key:
  fixes f :: "'a \<Rightarrow> int"
  shows "sum_list (map f (sort_key k xs)) = sum_list (map f xs)"
proof -
  have "mset (map f (sort_key k xs)) = mset (map f xs)" by simp
  then show ?thesis by (metis sum_mset_sum_list)
qed

lemma status_partition:
  "length its = length (filter (\<lambda>it. status it = CRITICAL) its)
              + length (filter (\<lambda>it. status it = WARNING) its)
              + length (filter (\<lambda>it. status it = WATCH) its)
              + length (filter (\<lambda>it. status it = GOOD) its)"
proof (induction its)
  case Nil
  show ?case by simp
next
  case (Cons it its)
  then show ?case by (cases "status it") simp_all
qed



text \<open>
  C4. In the classifier's result, \<open>ALL\<close> counts every returned item and sums its value;
  \<open>CRITICAL\<close>, \<open>WARNING\<close> and \<open>WATCH\<close> count and sum the items of their own status only;
  items of status \<open>GOOD\<close> are the part of \<open>ALL\<close> that no tier bucket holds; and the
  item list is in ascending order of \<open>daysRemaining\<close>.
\<close>

theorem useExpiryStats_stats_and_order:
  "bucket_count (stat_ALL (fst (useExpiryStats now prods)))
     = int (length (snd (useExpiryStats now prods))) \<and>
   bucket_value (stat_ALL (fst (useExpiryStats now prods)))
     = sum_list (map valueAtRisk (snd (useExpiryStats now prods))) \<and>
   bucket_count (stat_CRITICAL (fst (useExpiryStats now prods)))
     = int (length (filter (\<lambda>it. status it = CRITICAL) (snd (useExpiryStats now prods)))) \<and>
   bucket_value (stat_CRITICAL (fst (useExpiryStats now prods)))
     = sum_list (map valueAtRisk (filter (\<lambda>it. status it = CRITICAL) (snd (useExpiryStats now prods)))) \<and>
   bucket_count (stat_WARNING (fst (useExpiryStats now prods)))
     = int (length (filter (\<lambda>it. status it = WARNING) (snd (useExpiryStats now prods)))) \<and>
   bucket_value (stat_WARNING (fst (useExpiryStats now prods)))
     = sum_list (map valueAtRisk (filter (\<lambda>it. status it = WARNING) (snd (useExpiryStats now prods)))) \<and>
   bucket_count (stat_WATCH (fst (useExpiryStats now prods)))
     = int (length (filter (\<lambda>it. status it = WATCH) (snd (useExpiryStats now prods)))) \<and>
   bucket_value (stat_WATCH (fst (useExpiryStats now prods)))
     = sum_list (map valueAtRisk (filter (\<lambda>it. status it = WATCH) (snd (useExpiryStats now prods)))) \<and>
   bucket_count (stat_ALL (fst (useExpiryStats now prods)))
     = bucket_count (stat_CRITICAL (fst (useExpiryStats now prods)))
       + bucket_count (stat_WARNING (fst (useExpiryStats now prods)))
       + bucket_count (stat_WATCH (fst (useExpiryStats now prods)))
       + int (length (filter (\<lambda>it. status it = GOOD) (snd (useExpiryStats now prods)))) \<and>
   sorted (map daysRemaining (snd (useExpiryStats now prods)))"
proof -
  let ?raw = "stockedItems (getTime (setHoursZero now)) prods"
  have stats: "fst (useExpiryStats now prods) = foldl aggregate emptyStats ?raw"
    and items: "snd (useExpiryStats now prods) = sort_key daysRemaining ?raw"
    by (simp_all add: useExpiryStats_eq)
  have zero: "bucket_count (stat_ALL emptyStats) = 0" "bucket_value (stat_ALL emptyStats) = 0"
    "bucket_count (stat_CRITICAL emptyStats) = 0" "bucket_value (stat_CRITICAL emptyStats) = 0"
    "bucket_count (stat_WARNING emptyStats) = 0" "bucket_value (stat_WARNING emptyStats) = 0"
    "bucket_count (stat_WATCH emptyStats) = 0" "bucket_value (stat_WATCH emptyStats) = 0"
    by (simp_all add: emptyStats_def)
  have all: "bucket_count (stat_ALL (fst (useExpiryStats now prods)))
               = int (length (snd (useExpiryStats now prods)))"
    "bucket_value (stat_ALL (fst (useExpiryStats now prods)))
               = sum_list (map valueAtRisk (snd (useExpiryStats now prods)))"
    by (simp_all add: stats items aggregate_fold_ALL zero sum_list_sort_key)
  have crit: "bucket_count (stat_CRITICAL (fst (useExpiryStats now prods)))
     = int (length (filter (\<lambda>it. status it = CRITICAL) (snd (useExpiryStats now prods))))"
    "bucket_value (stat_CRITICAL (fst (useExpiryStats now prods)))
     = sum_list (map valueAtRisk (filter (\<lambda>it. status it = CRITICAL) (snd (useExpiryStats now prods))))"
    by (simp_all add: stats items aggregate_fold_CRITICAL zero filter_sort sum_list_sort_key)
  have warn: "bucket_count (stat_WARNING (fst (useExpiryStats now prods)))
     = int (length (filter (\<lambda>it. status it = WARNING) (snd (useExpiryStats now prods))))"
    "bucket_value (stat_WARNING (fst (useExpiryStats now prods)))
     = sum_list (map valueAtRisk (filter (\<lambda>it. status it = WARNING) (snd (useExpiryStats now prods))))"
    by (simp_all add: stats items aggregate_fold_WARNING zero filter_sort sum_list_sort_key)
  have watch: "bucket_count (stat_WATCH (fst (useExpiryStats now prods)))
     = int (length (filter (\<lambda>it. status it = WATCH) (snd (useExpiryStats now prods))))"
    "bucket_value (stat_WATCH (fst (useExpiryStats now prods)))
     = sum_list (map valueAtRisk (filter (\<lambda>it. status it = WATCH) (snd (useExpiryStats now prods))))"
    by (simp_all add: stats items aggregate_fold_WATCH zero filter_sort sum_list_sort_key)
  have good: "bucket_count (stat_ALL (fst (useExpiryStats now prods)))
     = bucket_count (stat_CRITICAL (fst (useExpiryStats now prods)))
       + bucket_count (stat_WARNING (fst (useExpiryStats now prods)))
       + bucket_count (stat_WATCH (fst (useExpiryStats now prods)))
       + int (length (filter (\<lambda>it. status it = GOOD) (snd (useExpiryStats now prods))))"
    unfolding all(1) crit(1) warn(1) watch(1)
    using status_partition [of "snd (useExpiryStats now prods)"] by linarith
  have ord: "sorted (map daysRemaining (snd (useExpiryStats now prods)))"
    by (simp add: items)
  from all crit warn watch good ord show ?thesis by blast
qed


lemmas expiry_defs = useExpiryStats_def visitBatch_def expiryItemOf_def aggregate_def addToBucket_def
  emptyStats_def differenceInDays_def timeOfIsoDate_def getTime_def setHoursZero_def makeDay_def
  dayFromYear_def monthOffset_def isLeapYear_def msPerDay_def


theorem useExpiryStats_stats_and_order_witness:
  "fst (useExpiryStats demo_today [demo_product, demo_product2])
     = \<lparr>stat_CRITICAL = \<lparr>bucket_count = 2, bucket_value = 1500\<rparr>,
        stat_WARNING = \<lparr>bucket_count = 0, bucket_value = 0\<rparr>,
        stat_WATCH = \<lparr>bucket_count = 0, bucket_value = 0\<rparr>,
        stat_ALL = \<lparr>bucket_count = 3, bucket_value = 1900\<rparr>\<rparr>
   \<and> int (length (snd (useExpiryStats demo_today [demo_product, demo_product2]))) = 3
   \<and> sorted (map daysRemaining (snd (useExpiryStats demo_today [demo_product, demo_product2])))"
proof -
  have ev: "fst (useExpiryStats demo_today [demo_product, demo_product2])
     = \<lparr>stat_CRITICAL = \<lparr>bucket_count = 2, bucket_value = 1500\<rparr>,
        stat_WARNING = \<lparr>bucket_count = 0, bucket_value = 0\<rparr>,
        stat_WATCH = \<lparr>bucket_count = 0, bucket_value = 0\<rparr>,
        stat_ALL = \<lparr>bucket_count = 3, bucket_value = 1900\<rparr>\<rparr>"
    by (simp add: expiry_defs demo_defs demo2_defs demo_today_def Let_def)
  from useExpiryStats_stats_and_order [of demo_today "[demo_product, demo_product2]"]
  show ?thesis by (simp add: ev)
qed

section \<open>Scan coalescing\<close>

lemma row_gtin_prefillRow [simp]: "row_gtin (prefillRow result product row) = row_gtin row"
  by (cases product) (simp_all add: prefillRow_def)

lemma row_quantity_prefillRow [simp]: "row_quantity (prefillRow result product row) = row_quantity row"
  by (cases product) (simp_all add: prefillRow_def)

lemma handleScan_present:
  assumes "findIndex (\<lambda>row. row_gtin row = scannedCodeOf (parseBarcode code) code) prevData = Some i"
  shows "handleScan parseBarcode catalogue freshId code prevData =
           prevData[i := (prevData ! i)\<lparr>row_quantity := row_quantity (prevData ! i) + 1,
                                          row_isHighlighted := Some True\<rparr>]"
  using assms by (simp add: handleScan_def Let_def)

lemma handleScan_absent:
  assumes "findIndex (\<lambda>row. row_gtin row = scannedCodeOf (parseBarcode code) code) prevData = None"
  shows "handleScan parseBarcode catalogue freshId code prevData =
           prefillRow (parseBarcode code)
             (find (\<lambda>p. gtin p = Some (scannedCodeOf (parseBarcode code) code)
                         \<or> product_id p = scannedCodeOf (parseBarcode code) code
                         \<or> sku p = scannedCodeOf (parseBarcode code) code) catalogue)
             (createEmptyRow freshId (scannedCodeOf (parseBarcode code) code)) # prevData"
  using assms by (simp add: handleScan_def Let_def)

lemma find_update_first:
  assumes "findIndex P xs = Some i" and "P y"
  shows "find P (xs[i := y]) = Some y"
  using assms
proof (induction xs arbitrary: i)
  case Nil
  then show ?case by simp
next
  case (Cons x xs)
  then show ?case by (cases i) (auto split: if_splits)
qed

lemma find_update_other:
  assumes "findIndex Q xs = Some i" and "\<And>z. Q z \<Longrightarrow> \<not> P z" and "\<not> P y"
  shows "find P (xs[i := y]) = find P xs"
  using assms
proof (induction xs arbitrary: i)
  case Nil
  then show ?case by simp
next
  case (Cons x xs)
  show ?case
  proof (cases i)
    case 0
    with Cons.prems have "Q x" by (auto split: if_splits)
    with Cons.prems 0 show ?thesis by auto
  next
    case (Suc k)
    with Cons.prems have "findIndex Q xs = Some k" by (auto split: if_splits)
    with Cons Suc show ?thesis by auto
  qed
qed

lemma find_findIndex: "find P xs = (case findIndex P xs of None \<Rightarrow> None | Some i \<Rightarrow> Some (xs ! i))"
  by (induction xs) (auto split: option.splits)

lemma scanStep_gtins:
  "map row_gtin (scanStep parseBarcode grid ev) =
     (if identityOf parseBarcode ev \<in> set (map row_gtin grid) then map row_gtin grid
      else identityOf parseBarcode ev # map row_gtin grid)"
proof (cases "findIndex (\<lambda>row. row_gtin row = identityOf parseBarcode ev) grid")
  case None
  then have "identityOf parseBarcode ev \<notin> set (map row_gtin grid)"
    by (auto simp: findIndex_None_iff)
  with None show ?thesis
    by (simp add: scanStep_def identityOf_def handleScan_absent createEmptyRow_def)
next
  case (Some i)
  then have i: "i < length grid" "row_gtin (grid ! i) = identityOf parseBarcode ev"
    by (simp_all add: findIndex_Some_iff)
  then have "identityOf parseBarcode ev \<in> set (map row_gtin grid)"
    by (metis length_map nth_map nth_mem)
  moreover have "map row_gtin (grid[i := (grid ! i)\<lparr>row_quantity := row_quantity (grid ! i) + 1,
                    row_isHighlighted := Some True\<rparr>]) = map row_gtin grid"
    using i by (simp add: map_update list_update_same_conv)
  ultimately show ?thesis
    using Some by (simp add: scanStep_def identityOf_def handleScan_present)
qed

lemma scanStep_quantityOf:
  "quantityOf x (scanStep parseBarcode grid ev) =
     quantityOf x grid + (if identityOf parseBarcode ev = x then 1 else 0)"
proof (cases "findIndex (\<lambda>row. row_gtin row = identityOf parseBarcode ev) grid")
  case None
  then have absent: "find (\<lambda>row. row_gtin row = identityOf parseBarcode ev) grid = None"
    by (simp add: find_findIndex)
  from None show ?thesis
    using absent
    by (auto simp: scanStep_def identityOf_def handleScan_absent quantityOf_def createEmptyRow_def)
next
  case (Some i)
  let ?y = "(grid ! i)\<lparr>row_quantity := row_quantity (grid ! i) + 1, row_isHighlighted := Some True\<rparr>"
  from Some have i: "i < length grid" "row_gtin (grid ! i) = identityOf parseBarcode ev"
    by (simp_all add: findIndex_Some_iff)
  have step: "scanStep parseBarcode grid ev = grid[i := ?y]"
    using Some by (simp add: scanStep_def identityOf_def handleScan_present)
  show ?thesis
  proof (cases "identityOf parseBarcode ev = x")
    case True
    have "find (\<lambda>row. row_gtin row = x) (grid[i := ?y]) = Some ?y"
      using Some i True by (intro find_update_first) simp_all
    moreover have "find (\<lambda>row. row_gtin row = x) grid = Some (grid ! i)"
      using Some True by (simp add: find_findIndex)
    ultimately show ?thesis using True by (simp add: step quantityOf_def)
  next
    case False
    have "find (\<lambda>row. row_gtin row = x) (grid[i := ?y]) = find (\<lambda>row. row_gtin row = x) grid"
      using Some i False by (intro find_update_other [where Q = "\<lambda>row. row_gtin row = identityOf parseBarcode ev"]) auto
    then show ?thesis using False by (simp add: step quantityOf_def)
  qed
qed

lemma scanAll_Cons: "scanAll parseBarcode (ev # evs) grid = scanAll parseBarcode evs (scanStep parseBarcode grid ev)"
  by (simp add: scanAll_def)

lemma scanAll_Nil: "scanAll parseBarcode [] grid = grid"
  by (simp add: scanAll_def)

lemma scanStep_distinct:
  assumes "distinct (map row_gtin grid)"
  shows "distinct (map row_gtin (scanStep parseBarcode grid ev))"
  using assms by (simp add: scanStep_gtins)

lemma scanAll_distinct:
  assumes "distinct (map row_gtin grid)"
  shows "distinct (map row_gtin (scanAll parseBarcode evs grid))"
  using assms
proof (induction evs arbitrary: grid)
  case Nil
  then show ?case by (simp add: scanAll_Nil)
next
  case (Cons ev evs)
  from Cons.prems have "distinct (map row_gtin (scanStep parseBarcode grid ev))"
    by (rule scanStep_distinct)
  then show ?case by (simp only: scanAll_Cons Cons.IH)
qed

lemma scanAll_quantityOf:
  "quantityOf x (scanAll parseBarcode evs grid) =
     quantityOf x grid + int (length (filter (\<lambda>ev. identityOf parseBarcode ev = x) evs))"
proof (induction evs arbitrary: grid)
  case Nil
  show ?case by (simp add: scanAll_Nil)
next
  case (Cons ev evs)
  show ?case
    by (simp add: scanAll_Cons Cons.IH scanStep_quantityOf)
qed

lemma scanAll_gtins:
  "set (map row_gtin (scanAll parseBarcode evs grid)) =
     set (map row_gtin grid) \<union> identityOf parseBarcode ` set evs"
proof (induction evs arbitrary: grid)
  case Nil
  show ?case by (simp add: scanAll_Nil)
next
  case (Cons ev evs)
  have "set (map row_gtin (scanStep parseBarcode grid ev)) =
          insert (identityOf parseBarcode ev) (set (map row_gtin grid))"
    by (auto simp: scanStep_gtins)
  then show ?case
    by (simp only: scanAll_Cons Cons.IH) auto
qed

lemma one_row_of_distinct:
  assumes "distinct (map row_gtin grid)" and "x \<in> set (map row_gtin grid)"
  shows "length (filter (\<lambda>row. row_gtin row = x) grid) = 1"
  using assms
proof (induction grid)
  case Nil
  then show ?case by simp
next
  case (Cons r rs)
  show ?case
  proof (cases "row_gtin r = x")
    case True
    with Cons.prems have "x \<notin> row_gtin ` set rs" by auto
    then have "filter (\<lambda>row. row_gtin row = x) rs = []"
      by (auto simp: filter_empty_conv)
    with True show ?thesis by simp
  next
    case False
    with Cons show ?thesis by auto
  qed
qed

lemma scanStep_front:
  assumes "identityOf parseBarcode ev = row_gtin r"
  shows "scanStep parseBarcode (r # rest) ev =
           r\<lparr>row_quantity := row_quantity r + 1, row_isHighlighted := Some True\<rparr> # rest"
proof -
  have "findIndex (\<lambda>row. row_gtin row = scannedCodeOf (parseBarcode (scan_code ev)) (scan_code ev))
          (r # rest) = Some 0"
    using assms by (simp add: identityOf_def)
  from handleScan_present [where parseBarcode = parseBarcode and code = "scan_code ev"
      and prevData = "r # rest" and i = 0, OF this]
  show ?thesis by (simp add: scanStep_def)
qed

lemma scanAll_front:
  assumes "\<forall>ev\<in>set evs. identityOf parseBarcode ev = row_gtin r"
  shows "\<exists>r'. scanAll parseBarcode evs (r # rest) = r' # rest \<and> row_gtin r' = row_gtin r \<and>
              row_id r' = row_id r \<and> row_quantity r' = row_quantity r + int (length evs)"
  using assms
proof (induction evs arbitrary: r)
  case Nil
  show ?case by (simp add: scanAll_Nil)
next
  case (Cons ev evs)
  let ?r1 = "r\<lparr>row_quantity := row_quantity r + 1, row_isHighlighted := Some True\<rparr>"
  from Cons.prems have step: "scanStep parseBarcode (r # rest) ev = ?r1 # rest"
    by (intro scanStep_front) simp
  from Cons.prems have "\<forall>e\<in>set evs. identityOf parseBarcode e = row_gtin ?r1" by simp
  from Cons.IH [OF this] obtain r' where "scanAll parseBarcode evs (?r1 # rest) = r' # rest"
    and "row_gtin r' = row_gtin ?r1" and "row_id r' = row_id ?r1"
    and "row_quantity r' = row_quantity ?r1 + int (length evs)"
    by blast
  then show ?case by (simp add: scanAll_Cons step)
qed

lemma scanStep_absent:
  assumes "identityOf parseBarcode ev \<notin> set (map row_gtin grid)"
  shows "\<exists>r. scanStep parseBarcode grid ev = r # grid \<and> row_gtin r = identityOf parseBarcode ev \<and>
             row_id r = scan_freshId ev \<and> row_quantity r = 1"
proof -
  from assms have "findIndex (\<lambda>row. row_gtin row = scannedCodeOf (parseBarcode (scan_code ev)) (scan_code ev)) grid = None"
    unfolding findIndex_None_iff identityOf_def by (metis image_eqI set_map)
  from handleScan_absent [where parseBarcode = parseBarcode and code = "scan_code ev"
      and prevData = grid, OF this]
  show ?thesis
    by (cases "find (\<lambda>p. gtin p = Some (scannedCodeOf (parseBarcode (scan_code ev)) (scan_code ev))
                         \<or> product_id p = scannedCodeOf (parseBarcode (scan_code ev)) (scan_code ev)
                         \<or> sku p = scannedCodeOf (parseBarcode (scan_code ev)) (scan_code ev)) (scan_catalogue ev)")
       (simp_all add: scanStep_def identityOf_def createEmptyRow_def prefillRow_def)
qed

text \<open>
  C5. Scans that all resolve to one identity, arriving on a grid that has no row for it,
  leave the grid as it was with one new row in front: the row of the first scan, with the
  number of scans as its quantity. More generally, on a grid whose rows carry pairwise
  different identities, any sequence of scans leaves exactly one row for an identity that
  was scanned and was not in the grid, and its quantity is the number of scans of that
  identity. A scan of an identity that has a row adds 1 to the quantity of that row where
  it stands and touches no other row; a scan of an identity without a row puts a row with
  quantity 1 in front of the unchanged grid.
\<close>

theorem scan_coalescing:
  "(evs \<noteq> [] \<and> (\<forall>ev\<in>set evs. identityOf parseBarcode ev = x) \<and> x \<notin> set (map row_gtin grid) \<longrightarrow>
      (\<exists>r. scanAll parseBarcode evs grid = r # grid \<and> row_gtin r = x \<and>
           row_id r = scan_freshId (hd evs) \<and> row_quantity r = int (length evs))) \<and>
   (distinct (map row_gtin grid) \<and> x \<notin> set (map row_gtin grid) \<and>
    x \<in> identityOf parseBarcode ` set evs \<longrightarrow>
      length (filter (\<lambda>row. row_gtin row = x) (scanAll parseBarcode evs grid)) = 1 \<and>
      quantityOf x (scanAll parseBarcode evs grid)
        = int (length (filter (\<lambda>ev. identityOf parseBarcode ev = x) evs))) \<and>
   (\<forall>i. findIndex (\<lambda>row. row_gtin row = identityOf parseBarcode ev) grid = Some i \<longrightarrow>
      scanStep parseBarcode grid ev =
        grid[i := (grid ! i)\<lparr>row_quantity := row_quantity (grid ! i) + 1,
                              row_isHighlighted := Some True\<rparr>]) \<and>
   (identityOf parseBarcode ev \<notin> set (map row_gtin grid) \<longrightarrow>
      (\<exists>r. scanStep parseBarcode grid ev = r # grid \<and> row_gtin r = identityOf parseBarcode ev \<and>
           row_quantity r = 1))"
proof -
  have repeated: "\<exists>r. scanAll parseBarcode evs grid = r # grid \<and> row_gtin r = x \<and>
           row_id r = scan_freshId (hd evs) \<and> row_quantity r = int (length evs)"
    if ne: "evs \<noteq> []" and same: "\<forall>ev\<in>set evs. identityOf parseBarcode ev = x"
      and absent: "x \<notin> set (map row_gtin grid)"
  proof -
    from ne obtain e es where evs: "evs = e # es" by (cases evs) auto
    with same have e: "identityOf parseBarcode e = x" by simp
    with absent have "identityOf parseBarcode e \<notin> set (map row_gtin grid)" by simp
    from scanStep_absent [OF this] obtain r0
      where r0: "scanStep parseBarcode grid e = r0 # grid" "row_gtin r0 = identityOf parseBarcode e"
        "row_id r0 = scan_freshId e" "row_quantity r0 = 1"
      by blast
    from same evs r0(2) e have "\<forall>ev\<in>set es. identityOf parseBarcode ev = row_gtin r0" by simp
    from scanAll_front [OF this, of grid] obtain r
      where "scanAll parseBarcode es (r0 # grid) = r # grid" "row_gtin r = row_gtin r0"
        "row_id r = row_id r0" "row_quantity r = row_quantity r0 + int (length es)"
      by blast
    with r0 e evs show ?thesis by (simp add: scanAll_Cons)
  qed
  have coalesced: "length (filter (\<lambda>row. row_gtin row = x) (scanAll parseBarcode evs grid)) = 1 \<and>
      quantityOf x (scanAll parseBarcode evs grid)
        = int (length (filter (\<lambda>ev. identityOf parseBarcode ev = x) evs))"
    if d: "distinct (map row_gtin grid)" and absent: "x \<notin> set (map row_gtin grid)"
      and scanned: "x \<in> identityOf parseBarcode ` set evs"
  proof -
    have "distinct (map row_gtin (scanAll parseBarcode evs grid))"
      using d by (rule scanAll_distinct)
    moreover have "x \<in> set (map row_gtin (scanAll parseBarcode evs grid))"
      using scanned by (simp only: scanAll_gtins) simp
    ultimately have one: "length (filter (\<lambda>row. row_gtin row = x) (scanAll parseBarcode evs grid)) = 1"
      by (rule one_row_of_distinct)
    from absent have "find (\<lambda>row. row_gtin row = x) grid = None"
      by (auto simp: find_None_iff)
    then have "quantityOf x grid = 0" by (simp add: quantityOf_def)
    with one show ?thesis by (simp add: scanAll_quantityOf)
  qed
  have present: "scanStep parseBarcode grid ev =
        grid[i := (grid ! i)\<lparr>row_quantity := row_quantity (grid ! i) + 1,
                              row_isHighlighted := Some True\<rparr>]"
    if "findIndex (\<lambda>row. row_gtin row = identityOf parseBarcode ev) grid = Some i" for i
    using that handleScan_present [where parseBarcode = parseBarcode and code = "scan_code ev"
        and prevData = grid and i = i]
    by (simp add: scanStep_def identityOf_def)
  have fresh: "\<exists>r. scanStep parseBarcode grid ev = r # grid \<and>
           row_gtin r = identityOf parseBarcode ev \<and> row_quantity r = 1"
    if "identityOf parseBarcode ev \<notin> set (map row_gtin grid)"
    using scanStep_absent [OF that] by blast
  from repeated coalesced present fresh show ?thesis by blast
qed

lemmas scan_defs = scanAll_def scanStep_def handleScan_def scannedCodeOf_def prefillRow_def
  createEmptyRow_def identityOf_def demo_parse_def demo_scanX_def demo_scanX2_def demo_scanY_def

theorem scan_coalescing_witness:
  "(\<exists>r. scanAll demo_parse [demo_scanX, demo_scanX2] [] = [r] \<and> row_gtin r = ''8850001'' \<and>
        row_id r = ''row-1'' \<and> row_quantity r = 2)
   \<and> length (filter (\<lambda>row. row_gtin row = ''8850001'')
         (scanAll demo_parse [demo_scanX, demo_scanX2, demo_scanY] [])) = 1
   \<and> quantityOf ''8850001'' (scanAll demo_parse [demo_scanX, demo_scanX2, demo_scanY] []) = 2
   \<and> map (\<lambda>row. (row_gtin row, row_quantity row))
         (scanAll demo_parse [demo_scanX, demo_scanX2, demo_scanY] [])
       = [(''4900002'', 1), (''8850001'', 2)]
   \<and> map (\<lambda>row. (row_gtin row, row_quantity row))
         (scanStep demo_parse (scanAll demo_parse [demo_scanX, demo_scanY] []) demo_scanX2)
       = [(''4900002'', 1), (''8850001'', 2)]"
proof -
  have idX: "identityOf demo_parse demo_scanX = ''8850001''"
    "identityOf demo_parse demo_scanX2 = ''8850001''" "identityOf demo_parse demo_scanY = ''4900002''"
    by (simp_all add: scan_defs)
  note two = scan_coalescing [where evs = "[demo_scanX, demo_scanX2]" and parseBarcode = demo_parse
      and x = "''8850001''" and grid = "[]"]
  note three = scan_coalescing [where evs = "[demo_scanX, demo_scanX2, demo_scanY]"
      and parseBarcode = demo_parse and x = "''8850001''" and grid = "[]"]
  note again = scan_coalescing [where parseBarcode = demo_parse and ev = demo_scanX2
      and grid = "scanAll demo_parse [demo_scanX, demo_scanY] []"]
  have grid2: "map (\<lambda>row. (row_gtin row, row_quantity row)) (scanAll demo_parse [demo_scanX, demo_scanY] [])
                 = [(''4900002'', 1), (''8850001'', 1)]"
    by (simp add: scan_defs demo_defs Let_def)
  have idx: "findIndex (\<lambda>row. row_gtin row = identityOf demo_parse demo_scanX2)
               (scanAll demo_parse [demo_scanX, demo_scanY] []) = Some 1"
    by (simp add: scan_defs demo_defs Let_def)
  from two idX have c1: "\<exists>r. scanAll demo_parse [demo_scanX, demo_scanX2] [] = [r] \<and>
        row_gtin r = ''8850001'' \<and> row_id r = ''row-1'' \<and> row_quantity r = 2"
    by (simp add: demo_scanX_def)
  from three idX have c2: "length (filter (\<lambda>row. row_gtin row = ''8850001'')
         (scanAll demo_parse [demo_scanX, demo_scanX2, demo_scanY] [])) = 1"
    and c3: "quantityOf ''8850001'' (scanAll demo_parse [demo_scanX, demo_scanX2, demo_scanY] []) = 2"
    by simp_all
  have c4: "map (\<lambda>row. (row_gtin row, row_quantity row))
         (scanAll demo_parse [demo_scanX, demo_scanX2, demo_scanY] [])
       = [(''4900002'', 1), (''8850001'', 2)]"
    by (simp add: scan_defs demo_defs Let_def)
  from again idx have "scanStep demo_parse (scanAll demo_parse [demo_scanX, demo_scanY] []) demo_scanX2 =
      (scanAll demo_parse [demo_scanX, demo_scanY] [])[1 :=
         (scanAll demo_parse [demo_scanX, demo_scanY] [] ! 1)
           \<lparr>row_quantity := row_quantity (scanAll demo_parse [demo_scanX, demo_scanY] [] ! 1) + 1,
             row_isHighlighted := Some True\<rparr>]"
    by blast
  then have c5: "map (\<lambda>row. (row_gtin row, row_quantity row))
         (scanStep demo_parse (scanAll demo_parse [demo_scanX, demo_scanY] []) demo_scanX2)
       = [(''4900002'', 1), (''8850001'', 2)]"
    by (simp add: scan_defs demo_defs Let_def)
  from c1 c2 c3 c4 c5 show ?thesis by blast
qed

section \<open>Saving the grid\<close>

lemma saveLoop_append:
  "saveLoop addProduct catalogue envAt (pre @ post) db =
     (case saveLoop addProduct catalogue envAt pre db of
        (db1, None) \<Rightarrow> saveLoop addProduct catalogue envAt post db1
      | (db1, Some e) \<Rightarrow> (db1, Some e))"
proof (induction pre arbitrary: db)
  case Nil
  show ?case by simp
next
  case (Cons r pre)
  show ?case
    by (cases "saveEntry addProduct catalogue (envAt r) r db") (simp_all add: Cons.IH)
qed

lemma saveLoop_failure_split:
  assumes "saveLoop addProduct catalogue envAt rows db = (db', Some e)"
  shows "\<exists>pre entry post. rows = pre @ entry # post \<and> row_productName entry \<noteq> [] \<and>
           saveLoop addProduct catalogue envAt pre db = (db', None) \<and>
           saveEntry addProduct catalogue (envAt entry) entry db' = Inl e"
  using assms
proof (induction rows arbitrary: db)
  case Nil
  then show ?case by simp
next
  case (Cons r rows)
  show ?case
  proof (cases "row_productName r = []")
    case True
    with Cons.prems have "saveLoop addProduct catalogue envAt rows db = (db', Some e)" by simp
    from Cons.IH [OF this] obtain pre entry post
      where "rows = pre @ entry # post" "row_productName entry \<noteq> []"
        "saveLoop addProduct catalogue envAt pre db = (db', None)"
        "saveEntry addProduct catalogue (envAt entry) entry db' = Inl e"
      by blast
    with True have "r # rows = (r # pre) @ entry # post \<and> row_productName entry \<noteq> [] \<and>
        saveLoop addProduct catalogue envAt (r # pre) db = (db', None) \<and>
        saveEntry addProduct catalogue (envAt entry) entry db' = Inl e"
      by simp
    then show ?thesis by blast
  next
    case False
    show ?thesis
    proof (cases "saveEntry addProduct catalogue (envAt r) r db")
      case (Inl err)
      with False Cons.prems have "db' = db" "err = e" by simp_all
      with False Inl have "r # rows = [] @ r # rows \<and> row_productName r \<noteq> [] \<and>
          saveLoop addProduct catalogue envAt [] db = (db', None) \<and>
          saveEntry addProduct catalogue (envAt r) r db' = Inl e"
        by simp
      then show ?thesis by blast
    next
      case (Inr db1)
      with False Cons.prems have "saveLoop addProduct catalogue envAt rows db1 = (db', Some e)" by simp
      from Cons.IH [OF this] obtain pre entry post
        where "rows = pre @ entry # post" "row_productName entry \<noteq> []"
          "saveLoop addProduct catalogue envAt pre db1 = (db', None)"
          "saveEntry addProduct catalogue (envAt entry) entry db' = Inl e"
        by blast
      with False Inr have "r # rows = (r # pre) @ entry # post \<and> row_productName entry \<noteq> [] \<and>
          saveLoop addProduct catalogue envAt (r # pre) db = (db', None) \<and>
          saveEntry addProduct catalogue (envAt entry) entry db' = Inl e"
        by simp
      then show ?thesis by blast
    qed
  qed
qed

text \<open>
  C6 (amended). When the rows before a named row have all been saved and that row's
  mutation call fails, \<open>handleSaveAll\<close> ends in failure with the database exactly as those
  earlier rows left it (nothing rolled back, no later row attempted) and with the grid
  unchanged: every row is still in it, the rows already applied included.
\<close>

theorem handleSaveAll_partial_failure:
  assumes applied: "saveLoop addProduct catalogue envAt pre db = (db1, None)"
    and named: "row_productName entry \<noteq> []"
    and failed: "saveEntry addProduct catalogue (envAt entry) entry db1 = Inl e"
  shows "handleSaveAll addProduct catalogue envAt True (pre @ entry # post) db =
           (pre @ entry # post, db1, SaveFailed e)"
proof -
  have "saveLoop addProduct catalogue envAt (entry # post) db1 = (db1, Some e)"
    using named failed by simp
  with applied have "saveLoop addProduct catalogue envAt (pre @ entry # post) db = (db1, Some e)"
    by (simp add: saveLoop_append)
  then show ?thesis by (simp add: handleSaveAll_def)
qed

lemma handleSaveAll_failed_cases:
  assumes "handleSaveAll addProduct catalogue envAt confirmed gridData db = (grid', db', SaveFailed e)"
  shows "grid' = gridData \<and>
         (\<exists>pre entry post. gridData = pre @ entry # post \<and> row_productName entry \<noteq> [] \<and>
            saveLoop addProduct catalogue envAt pre db = (db', None) \<and>
            saveEntry addProduct catalogue (envAt entry) entry db' = Inl e)"
proof -
  from assms have run: "gridData \<noteq> []" "confirmed"
    by (auto simp: handleSaveAll_def split: if_splits)
  obtain d r where loop: "saveLoop addProduct catalogue envAt gridData db = (d, r)"
    by (cases "saveLoop addProduct catalogue envAt gridData db")
  with assms run have "r = Some e" "d = db'" "grid' = gridData"
    by (cases r; simp add: handleSaveAll_def)+
  with loop saveLoop_failure_split [of addProduct catalogue envAt gridData db db' e]
  show ?thesis by simp
qed

lemma handleSaveAll_saved:
  assumes "gridData \<noteq> []" and "saveLoop addProduct catalogue envAt gridData db = (db', None)"
  shows "handleSaveAll addProduct catalogue envAt True gridData db = ([], db', Saved)"
  using assms by (simp add: handleSaveAll_def)

lemmas save_defs = handleSaveAll_def saveEntry_def incrementStock_def incrementStock_batchData_def
  post_batch_def createBatchSchema_parse_def demo_row_def demo_grid_def demo_envAt_def
  demo_addProduct_def demo_env_def

theorem handleSaveAll_partial_failure_witness:
  "handleSaveAll demo_addProduct [demo_product] demo_envAt True
     ([demo_row ''row-1'' ''LOT-A'' 3] @ demo_row ''row-2'' ''LOT-B'' 4 # [demo_row ''row-3'' ''LOT-N'' 1])
     [demo_product]
   = ([demo_row ''row-1'' ''LOT-A'' 3] @ demo_row ''row-2'' ''LOT-B'' 4 # [demo_row ''row-3'' ''LOT-N'' 1],
      [demo_product\<lparr>batches := [demo_lotA\<lparr>quantity := 8\<rparr>, demo_lotB], stockLevel := 18\<rparr>],
      SaveFailed NetworkError)"
proof -
  have applied: "saveLoop demo_addProduct [demo_product] demo_envAt [demo_row ''row-1'' ''LOT-A'' 3]
                   [demo_product]
                 = ([demo_product\<lparr>batches := [demo_lotA\<lparr>quantity := 8\<rparr>, demo_lotB], stockLevel := 18\<rparr>],
                    None)"
    by (simp add: save_defs demo_defs Let_def)
  have named: "row_productName (demo_row ''row-2'' ''LOT-B'' 4) \<noteq> []"
    by (simp add: demo_row_def)
  have failed: "saveEntry demo_addProduct [demo_product] (demo_envAt (demo_row ''row-2'' ''LOT-B'' 4))
                  (demo_row ''row-2'' ''LOT-B'' 4)
                  [demo_product\<lparr>batches := [demo_lotA\<lparr>quantity := 8\<rparr>, demo_lotB], stockLevel := 18\<rparr>]
                = Inl NetworkError"
    by (simp add: save_defs demo_defs Let_def)
  show ?thesis
    by (rule handleSaveAll_partial_failure [OF applied named failed])
qed

text \<open>
  C6 as stated fails: with three rows of which the second meets a network failure, the
  first row is applied (lot A goes from 5 to 8, the stock level from 15 to 18), the save
  fails, and the grid afterwards still starts with the first row.
\<close>

theorem handleSaveAll_grid_counterexample:
  "fst (handleSaveAll demo_addProduct [demo_product] demo_envAt True demo_grid [demo_product])
     = [demo_row ''row-1'' ''LOT-A'' 3, demo_row ''row-2'' ''LOT-B'' 4, demo_row ''row-3'' ''LOT-N'' 1]
   \<and> snd (snd (handleSaveAll demo_addProduct [demo_product] demo_envAt True demo_grid [demo_product]))
     = SaveFailed NetworkError
   \<and> map (\<lambda>p. (stockLevel p, map quantity (batches p)))
       (fst (snd (handleSaveAll demo_addProduct [demo_product] demo_envAt True demo_grid [demo_product])))
     = [(18, [8, 10])]"
  by (simp add: save_defs demo_defs Let_def)

section \<open>Scanner history\<close>

lemma runScanner_snoc: "runScanner (ops @ [op]) = applyScannerOp (runScanner ops) op"
  by (simp add: runScanner_def)

lemma take_Cons_pred: "0 < n \<Longrightarrow> take n (x # xs) = x # take (n - 1) xs"
  by (cases n) simp_all

lemma confirmAndSync_items:
  "\<exists>entry. scannedItems (fst (confirmAndSync catalogue logId logTime verifiedItem state))
             = entry # take 499 (scannedItems state) \<and>
           si_id entry = si_id verifiedItem \<and> si_timestamp entry = si_timestamp verifiedItem \<and>
           si_verified entry = Some True"
  by (cases "findScannedProduct catalogue verifiedItem")
     (simp_all add: confirmAndSync_def Let_def take_Cons_pred)

lemma confirmAndSync_logs:
  "if fst (snd (confirmAndSync catalogue logId logTime verifiedItem state))
   then \<exists>l. syncLogs (fst (confirmAndSync catalogue logId logTime verifiedItem state))
              = l # take 199 (syncLogs state) \<and>
            log_scanId l = si_id verifiedItem \<and> log_timestamp l = logTime \<and> log_id l = logId
   else syncLogs (fst (confirmAndSync catalogue logId logTime verifiedItem state)) = syncLogs state"
  by (cases "findScannedProduct catalogue verifiedItem")
     (simp_all add: confirmAndSync_def Let_def take_Cons_pred)

lemma confirmAndSync_bounds:
  assumes "length (syncLogs state) \<le> 200"
  shows "length (scannedItems (fst (confirmAndSync catalogue logId logTime verifiedItem state))) \<le> 500 \<and>
         length (syncLogs (fst (confirmAndSync catalogue logId logTime verifiedItem state))) \<le> 200"
  using assms
  by (cases "findScannedProduct catalogue verifiedItem")
     (simp_all add: confirmAndSync_def Let_def)

lemma applyScannerOp_bounds:
  assumes "length (scannedItems state) \<le> 500 \<and> length (syncLogs state) \<le> 200"
  shows "length (scannedItems (applyScannerOp state op)) \<le> 500 \<and>
         length (syncLogs (applyScannerOp state op)) \<le> 200"
proof (cases op)
  case (Confirm catalogue logId logTime verifiedItem)
  with assms confirmAndSync_bounds [of state catalogue logId logTime verifiedItem]
  show ?thesis by simp
next
  case (SetActiveScan it)
  with assms show ?thesis by simp
next
  case ClearHistory
  then show ?thesis by simp
qed

lemma runScanner_bounds:
  "length (scannedItems (runScanner ops)) \<le> 500 \<and> length (syncLogs (runScanner ops)) \<le> 200"
proof (induction ops rule: rev_induct)
  case Nil
  show ?case by (simp add: runScanner_def initialScannerState_def)
next
  case (snoc op ops)
  then show ?case
    by (simp only: runScanner_snoc applyScannerOp_bounds)
qed

text \<open>
  C10. After any run of the scanner store's actions from its initial state, and so after
  every \<open>confirmAndSync\<close>, \<open>scannedItems\<close> has at most 500 entries and \<open>syncLogs\<close> at most
  200. A \<open>confirmAndSync\<close> puts the record of the scan it confirms first in \<open>scannedItems\<close>,
  ahead of the earlier entries in their order; when it returns true it puts the new log
  entry first in \<open>syncLogs\<close> in the same way, and when it returns false it leaves
  \<open>syncLogs\<close> as it was.
\<close>

theorem scanner_history_bounded:
  "length (scannedItems (runScanner ops)) \<le> 500 \<and> length (syncLogs (runScanner ops)) \<le> 200 \<and>
   (\<exists>entry. scannedItems (fst (confirmAndSync catalogue logId logTime verifiedItem (runScanner ops)))
              = entry # take 499 (scannedItems (runScanner ops)) \<and>
            si_id entry = si_id verifiedItem \<and> si_timestamp entry = si_timestamp verifiedItem \<and>
            si_verified entry = Some True) \<and>
   (if fst (snd (confirmAndSync catalogue logId logTime verifiedItem (runScanner ops)))
    then \<exists>l. syncLogs (fst (confirmAndSync catalogue logId logTime verifiedItem (runScanner ops)))
               = l # take 199 (syncLogs (runScanner ops)) \<and>
             log_scanId l = si_id verifiedItem \<and> log_timestamp l = logTime \<and> log_id l = logId
    else syncLogs (fst (confirmAndSync catalogue logId logTime verifiedItem (runScanner ops)))
           = syncLogs (runScanner ops))"
  using runScanner_bounds [of ops]
    confirmAndSync_items [of catalogue logId logTime verifiedItem "runScanner ops"]
    confirmAndSync_logs [of catalogue logId logTime verifiedItem "runScanner ops"]
  by (simp only: simp_thms)

lemmas scanner_defs = runScanner_def initialScannerState_def confirmAndSync_def
  findScannedProduct_def demo_scan_def demo_scan_unknown_def

theorem scanner_history_bounded_witness:
  "map si_id (scannedItems (runScanner
       [Confirm [demo_product] ''log-1'' ''2024-03-01T10:00:00Z'' demo_scan,
        Confirm [demo_product] ''log-2'' ''2024-03-01T10:01:00Z'' demo_scan_unknown]))
     = [''scan-2'', ''scan-1'']
   \<and> map log_scanId (syncLogs (runScanner
       [Confirm [demo_product] ''log-1'' ''2024-03-01T10:00:00Z'' demo_scan,
        Confirm [demo_product] ''log-2'' ''2024-03-01T10:01:00Z'' demo_scan_unknown]))
     = [''scan-1'']
   \<and> length (scannedItems (runScanner
       [Confirm [demo_product] ''log-1'' ''2024-03-01T10:00:00Z'' demo_scan,
        Confirm [demo_product] ''log-2'' ''2024-03-01T10:01:00Z'' demo_scan_unknown])) \<le> 500
   \<and> length (syncLogs (runScanner
       [Confirm [demo_product] ''log-1'' ''2024-03-01T10:00:00Z'' demo_scan,
        Confirm [demo_product] ''log-2'' ''2024-03-01T10:01:00Z'' demo_scan_unknown])) \<le> 200"
proof -
  have ev: "map si_id (scannedItems (runScanner
       [Confirm [demo_product] ''log-1'' ''2024-03-01T10:00:00Z'' demo_scan,
        Confirm [demo_product] ''log-2'' ''2024-03-01T10:01:00Z'' demo_scan_unknown]))
     = [''scan-2'', ''scan-1'']"
    "map log_scanId (syncLogs (runScanner
       [Confirm [demo_product] ''log-1'' ''2024-03-01T10:00:00Z'' demo_scan,
        Confirm [demo_product] ''log-2'' ''2024-03-01T10:01:00Z'' demo_scan_unknown]))
     = [''scan-1'']"
    by (simp_all add: scanner_defs demo_defs Let_def)
  from scanner_history_bounded [of
      "[Confirm [demo_product] ''log-1'' ''2024-03-01T10:00:00Z'' demo_scan,
        Confirm [demo_product] ''log-2'' ''2024-03-01T10:01:00Z'' demo_scan_unknown]"] ev
  show ?thesis by blast
qed

section \<open>The legacy local increment\<close>

lemma map_batchNumber_quantity_update:
  assumes "i < length xs"
  shows "map batchNumber (xs[i := (xs ! i)\<lparr>quantity := q\<rparr>]) = map batchNumber xs"
  using assms by (simp add: map_update list_update_same_conv)

text \<open>The legacy local increment, too, never gives two batches of a product the same batch
  number; unlike the server it leaves the cost price of an existing batch as it is.\<close>

lemma incrementStockLocal_map_numbers:
  assumes "distinct (map batchNumber (batches p))"
  shows "distinct (map batchNumber (batches (incrementStockLocal_map now freshId pid bn qty un loc expiry cost p)))"
proof (cases "product_id p = pid")
  case False
  with assms show ?thesis by (simp add: incrementStockLocal_map_def)
next
  case True
  show ?thesis
  proof (cases "case bn of None \<Rightarrow> None | Some b \<Rightarrow> if b \<noteq> [] \<and> b \<noteq> ''DEFAULT'' then Some b else None")
    case (Some b)
    show ?thesis
    proof (cases "findIndex (\<lambda>x. batchNumber x = b) (batches p)")
      case None
      then have "b \<notin> set (map batchNumber (batches p))"
        by (auto simp: findIndex_None_iff)
      with assms True Some None show ?thesis
        by (simp add: incrementStockLocal_map_def Let_def)
    next
      case found: (Some i)
      then have "i < length (batches p)" by (simp add: findIndex_Some_iff)
      with assms True Some found show ?thesis
        by (simp add: incrementStockLocal_map_def Let_def map_batchNumber_quantity_update)
    qed
  next
    case None
    show ?thesis
    proof (cases "batches p")
      case Nil
      with True None show ?thesis by (simp add: incrementStockLocal_map_def Let_def)
    next
      case (Cons x xs)
      then have "0 < length (batches p)" by simp
      from map_batchNumber_quantity_update [OF this] assms True None Cons show ?thesis
        by (simp add: incrementStockLocal_map_def Let_def)
    qed
  qed
qed

lemma incrementStockLocal_map_keeps_cost:
  "incrementStockLocal_map demo_now ''b-9'' ''p-1'' (Some ''LOT-A'') 7 None None None (Some 120) demo_product
     = demo_product\<lparr>stockLevel := 22, batches := [demo_lotA\<lparr>quantity := 12\<rparr>, demo_lotB]\<rparr>"
  by (simp add: incrementStockLocal_map_def demo_defs Let_def)

end
